theory Spec2Isabelle
  imports Main "HOL-Library.AList"
begin

section \<open>Python values, types and exceptions\<close>

text \<open>
  The Router (class \<open>Manipulator\<close> of \<open>common/super/manipulator.py\<close>) handles
  arbitrary Python objects. The values that its code tells apart are modelled by
  \<open>pyval\<close>: \<open>None\<close>, booleans, integers, strings, lists, dicts and instances of
  user classes. A dict carries the identity of the dict object (what \<open>id()\<close> returns)
  next to its items in insertion order; keys are strings, as in the annotation
  \<open>Dict[str, Any]\<close> of a request. An instance carries the module and the name of its
  class, its identity and its truth value \<open>bool(x)\<close>. Subclasses of the built-in types
  are not modelled.
\<close>

datatype pytype =
    NoneType | BoolT | IntT | StrT | ListT | DictT | SetT
  | Class string string

datatype pyval =
    PNone
  | PBool bool
  | PInt int
  | PStr string
  | PList "pyval list"
  | PDict nat "(string \<times> pyval) list"
  | PObj string string nat bool

text \<open>\<open>type(x)\<close>, \<open>type(x).__name__\<close> and \<open>str(type(x))\<close>.\<close>

fun type_of :: "pyval \<Rightarrow> pytype" where
  "type_of PNone = NoneType"
| "type_of (PBool b) = BoolT"
| "type_of (PInt i) = IntT"
| "type_of (PStr s) = StrT"
| "type_of (PList xs) = ListT"
| "type_of (PDict i kvs) = DictT"
| "type_of (PObj m n i t) = Class m n"

fun type_name :: "pytype \<Rightarrow> string" where
  "type_name NoneType = ''NoneType''"
| "type_name BoolT = ''bool''"
| "type_name IntT = ''int''"
| "type_name StrT = ''str''"
| "type_name ListT = ''list''"
| "type_name DictT = ''dict''"
| "type_name SetT = ''set''"
| "type_name (Class m n) = n"

fun type_str :: "pytype \<Rightarrow> string" where
  "type_str (Class m n) = ''<class '' @ [CHR 0x27] @ m @ ''.'' @ n @ [CHR 0x27] @ ''>''"
| "type_str t = ''<class '' @ [CHR 0x27] @ type_name t @ [CHR 0x27] @ ''>''"

text \<open>Truth value of an object, as \<open>if x\<close> and \<open>not x\<close> compute it.\<close>

fun truthy :: "pyval \<Rightarrow> bool" where
  "truthy PNone = False"
| "truthy (PBool b) = b"
| "truthy (PInt i) = (i \<noteq> 0)"
| "truthy (PStr s) = (s \<noteq> [])"
| "truthy (PList xs) = (xs \<noteq> [])"
| "truthy (PDict i kvs) = (kvs \<noteq> [])"
| "truthy (PObj m n i t) = t"

text \<open>
  Lists and dicts cannot be hashed, so they cannot be looked up in a dict. Instances are
  taken to have the default \<open>__hash__\<close>.
\<close>

fun hashable :: "pyval \<Rightarrow> bool" where
  "hashable (PList xs) = False"
| "hashable (PDict i kvs) = False"
| "hashable v = True"

text \<open>
  \<open>None\<close>, a bool, an int or a str: \<open>bool\<close>, \<open>hash\<close>, \<open>str\<close> and \<open>repr\<close> of such a value
  return. \<open>str\<close> and \<open>repr\<close> of a list, a dict or an instance run code of the classes
  involved and may raise. So may \<open>bool\<close> and \<open>hash\<close> of an instance whose class defines
  them, which the model does not follow: where this matters, the properties below are
  about plain values.
\<close>

fun plain :: "pyval \<Rightarrow> bool" where
  "plain (PList xs) = False"
| "plain (PDict i kvs) = False"
| "plain (PObj m n i t) = False"
| "plain v = True"

fun isinstance_dict :: "pyval \<Rightarrow> bool" where
  "isinstance_dict (PDict i kvs) = True"
| "isinstance_dict v = False"

fun isinstance_str :: "pyval \<Rightarrow> bool" where
  "isinstance_str (PStr s) = True"
| "isinstance_str v = False"

text \<open>
  An exception: the name of its class, whether the class derives from \<open>Exception\<close>
  (\<open>SystemExit\<close>, \<open>KeyboardInterrupt\<close> and \<open>GeneratorExit\<close> do not), and \<open>str(e)\<close>.
\<close>

datatype pyexc = PyExc (exc_type: string) (is_Exception: bool) (exc_str: string)

definition TypeError :: "string \<Rightarrow> pyexc" where
  "TypeError msg = PyExc ''TypeError'' True msg"

definition ValueError :: "string \<Rightarrow> pyexc" where
  "ValueError msg = PyExc ''ValueError'' True msg"

definition KeyError :: "string \<Rightarrow> pyexc" where
  "KeyError key = PyExc ''KeyError'' True ([CHR 0x27] @ key @ [CHR 0x27])"

text \<open>\<open>d.get(k)\<close> and \<open>k in d\<close> on the items of a dict.\<close>

definition dict_get :: "(string \<times> pyval) list \<Rightarrow> string \<Rightarrow> pyval" where
  "dict_get kvs k = (case map_of kvs k of None \<Rightarrow> PNone | Some v \<Rightarrow> v)"

definition has_key :: "('k \<times> 'v) list \<Rightarrow> 'k \<Rightarrow> bool" where
  "has_key kvs k = (k \<in> set (map fst kvs))"


section \<open>Reflection: members of instances and classes\<close>

text \<open>
  The registry is built by reflection (\<open>inspect.getmembers\<close>, \<open>dir\<close>, \<open>getattr\<close>).
  What reflection reports is data of the model: a member is the kind of the attribute
  value and a token identifying the callable object (two bound methods of different
  instances have different tokens). The kinds are those the predicates of the source tell
  apart: \<open>inspect.isfunction\<close>, \<open>inspect.ismethod\<close>, \<open>callable\<close> and
  \<open>isinstance(_, (type, property))\<close>.
\<close>

datatype member_kind = Function | Method | Builtin | TypeObj | Property | Data

type_synonym member = "member_kind \<times> nat"
type_synonym methods = "(string \<times> member) list"
type_synonym method_registry = "(pytype \<times> methods) list"

fun callable :: "member \<Rightarrow> bool" where
  "callable (Function, i) = True"
| "callable (Method, i) = True"
| "callable (Builtin, i) = True"
| "callable (TypeObj, i) = True"
| "callable (Property, i) = False"
| "callable (Data, i) = False"

definition isfunction :: "member \<Rightarrow> bool" where
  "isfunction m = (fst m = Function)"

definition ismethod :: "member \<Rightarrow> bool" where
  "ismethod m = (fst m = Method)"

definition isinstance_type_or_property :: "member \<Rightarrow> bool" where
  "isinstance_type_or_property m = (fst m = TypeObj \<or> fst m = Property)"

definition startswith :: "string \<Rightarrow> string \<Rightarrow> bool" where
  "startswith name prefix = (take (length prefix) name = prefix)"

text \<open>
  Facts of the Python runtime that the source uses and does not define: the members of a
  class (\<open>dir(cls)\<close> with \<open>getattr\<close>, which is also what \<open>inspect.getmembers(cls)\<close>
  walks), \<open>str(x)\<close> of a value that is not a string, and \<open>repr\<close> of a list of pairs
  of strings. \<open>inspect.getmembers(cls)\<close> runs the descriptors of the class and may
  raise: \<open>getmembers_error\<close> gives the exception, if any. \<open>str\<close> and \<open>repr\<close> of a
  value that is not plain may raise: \<open>str_error\<close> and \<open>repr_error\<close> give the
  exception, if any. They are parameters of the model.
\<close>

record pyrt =
  class_members :: "pytype \<Rightarrow> methods"
  getmembers_error :: "pytype \<Rightarrow> pyexc option"
  str_of :: "pyval \<Rightarrow> string"
  str_error :: "pyval \<Rightarrow> pyexc option"
  repr_error :: "pyval \<Rightarrow> pyexc option"
  repr_pairs :: "(string \<times> string) list \<Rightarrow> string"

section \<open>Handlers, result envelopes and the state of a run\<close>

text \<open>
  \<open>execute_args\<close>, the keyword arguments of \<open>execute\<close>: \<open>obj\<close> always, \<open>attributes\<close> and
  \<open>method\<close> when the source adds them.
\<close>

record payload =
  arg_obj :: pyval
  arg_attributes :: "pyval option"
  arg_method :: "pyval option"

text \<open>
  What the call of \<open>execute\<close> in the \<open>try\<close> block does. It returns a dict (its items), as
  the handlers of the repository are annotated (\<open>Dict[str, Any]\<close>); or it raises an
  exception \<open>e\<close> (\<open>Raises\<close> also stands for an exception raised while the result is
  read, such as the \<open>TypeError\<close> of subscripting a result that is no dict); or it raises
  an exception that derives from \<open>Exception\<close> and whose \<open>__str__\<close> raises in turn
  (\<open>Raises_unprintable\<close>, with the exception that \<open>str(e)\<close> raises).
\<close>

datatype outcome = Raises pyexc | Returns "(string \<times> pyval) list" | Raises_unprintable pyexc

text \<open>
  A handler (a "Super" instance). The base class \<open>Super\<close> with \<open>execute\<close> is not among
  the source files, so \<open>h_execute\<close> is a parameter: the effect of
  \<open>super_instance.execute(**execute_args)\<close>, which may read the Router's managing object
  (the handlers of the repository call \<open>get_managing_object\<close>), reads and writes the
  application state \<open>'w\<close>, and raises or returns. \<open>h_members\<close> is what
  \<open>inspect.getmembers(instance)\<close> reports, \<open>h_operation\<close> the attribute \<open>_operation\<close>.
  Two statements of the source run code of the handler's class and may raise:
  \<open>h_setattr_error\<close> is the exception that the assignment
  \<open>super_instance._operation = operation\<close> raises, if any (a class with \<open>__slots__\<close>, a
  \<open>__setattr__\<close> that refuses), and \<open>h_getmembers_error\<close> the exception that
  \<open>inspect.getmembers\<close> raises on the instance, if any (a property whose getter
  raises), in \<open>register_operation\<close> and in \<open>_get_method_registry\<close>.
\<close>

record 'w handler =
  h_type :: pytype
  h_id :: nat
  h_members :: methods
  h_operation :: pyval
  h_setattr_error :: "pyexc option"
  h_getmembers_error :: "pyexc option"
  h_execute :: "pyval \<Rightarrow> payload \<Rightarrow> 'w \<Rightarrow> outcome \<times> 'w"

text \<open>
  The result envelope, a dict with the keys \<open>status\<close>, \<open>object\<close>, \<open>method\<close>, \<open>result\<close>
  and, when present, \<open>error\<close>.
\<close>

record envelope =
  env_status :: pyval
  env_object :: pyval
  env_method :: pyval
  env_result :: pyval
  env_error :: "pyval option"

text \<open>The failing envelope that the Router builds itself, in every place of the source.\<close>

definition failure :: "pyval \<Rightarrow> string \<Rightarrow> envelope" where
  "failure obj error_msg =
     \<lparr>env_status = PBool False, env_object = obj, env_method = PNone, env_result = PNone,
      env_error = Some (PStr error_msg)\<rparr>"

text \<open>What \<open>process_request\<close> returns: one envelope, or a dict from request id to envelope.\<close>

datatype response = Single envelope | Batch "(string \<times> envelope) list"

text \<open>
  The state outside the Router that a run of \<open>process_request\<close> reads and writes:
  the next free object identity, the application state that handlers work on, and a log
  of the calls of \<open>execute\<close> made so far (handler identity and payload), kept to state
  which calls happen.
\<close>

record 'w pstate =
  heap_next :: nat
  calls :: "(nat \<times> payload) list"
  app :: 'w

text \<open>A new dict object (\<open>{}\<close>, \<open>d.copy()\<close>) gets the next free identity.\<close>

definition new_dict :: "(string \<times> pyval) list \<Rightarrow> 'w pstate \<Rightarrow> pyval \<times> 'w pstate" where
  "new_dict kvs st = (PDict (heap_next st) kvs, st\<lparr>heap_next := Suc (heap_next st)\<rparr>)"

section \<open>The Router\<close>

record 'w manipulator =
  managing_object :: pyval
  strict_type_check :: bool
  base_classes :: "pytype list"
  operations :: "(string \<times> 'w handler) list"
  registry :: method_registry

subsection \<open>The method registry\<close>

text \<open>
  The dict comprehension of \<open>register_operation\<close> and \<open>_get_method_registry\<close>: the bound
  methods of an instance whose names do not start with two underscores.
\<close>

definition instance_methods :: "'w handler \<Rightarrow> methods" where
  "instance_methods instance =
     filter (\<lambda>(name, method). ismethod method \<and> \<not> startswith name ''__'' \<and> callable method)
       (h_members instance)"

text \<open>
  The methods collected for a base class: for \<open>list\<close>, \<open>dict\<close> and \<open>set\<close> every callable
  of \<open>dir(cls)\<close> that is no type and no property and whose name does not start with an
  underscore; for any other class its functions and methods with such a name, found by
  \<open>inspect.getmembers(cls, ...)\<close>, which may raise.
\<close>

definition class_methods :: "pyrt \<Rightarrow> pytype \<Rightarrow> pyexc + methods" where
  "class_methods rt cls =
     (if cls \<in> {ListT, DictT, SetT}
      then Inr (filter (\<lambda>(name, method). \<not> startswith name ''_'' \<and> callable method
                          \<and> \<not> isinstance_type_or_property method) (class_members rt cls))
      else (case getmembers_error rt cls of
              Some e \<Rightarrow> Inl e
            | None \<Rightarrow>
                Inr (filter (\<lambda>(name, method). (isfunction method \<or> ismethod method)
                               \<and> \<not> (startswith name ''_'' \<or> \<not> callable method
                                      \<or> name \<in> {''__getattribute__'', ''__setattr__''}))
                       (class_members rt cls))))"

text \<open>
  The first loop of \<open>_get_method_registry\<close>, over \<open>self._operations.items()\<close>. An
  exception of \<open>inspect.getmembers(instance, ...)\<close> leaves the loop and the function.
\<close>

fun registry_of_operations ::
  "(string \<times> 'w handler) list \<Rightarrow> method_registry \<Rightarrow> pyexc + method_registry" where
  "registry_of_operations [] reg = Inr reg"
| "registry_of_operations ((operation, instance) # rest) reg =
     (case h_getmembers_error instance of
        Some e \<Rightarrow> Inl e
      | None \<Rightarrow>
          registry_of_operations rest (AList.update (h_type instance) (instance_methods instance) reg))"

text \<open>The second loop, over \<open>self._base_classes\<close>: a class without methods gets no entry.\<close>

fun registry_of_classes :: "pyrt \<Rightarrow> pytype list \<Rightarrow> method_registry \<Rightarrow> pyexc + method_registry" where
  "registry_of_classes rt [] reg = Inr reg"
| "registry_of_classes rt (cls # rest) reg =
     (case class_methods rt cls of
        Inl e \<Rightarrow> Inl e
      | Inr methods \<Rightarrow>
          registry_of_classes rt rest (if methods \<noteq> [] then AList.update cls methods reg else reg))"

text \<open>
  \<open>_get_method_registry\<close>: the registry, or the exception that reflection raised. The
  source caches it with \<open>lru_cache\<close>, keyed by \<open>self\<close>; \<open>__init__\<close> calls it on a new
  object and every other caller clears the cache first, so each call computes the
  registry from the current operations and base classes. \<open>validate_annotations\<close> only
  logs and is left out.
\<close>

definition get_method_registry ::
  "pyrt \<Rightarrow> (string \<times> 'w handler) list \<Rightarrow> pytype list \<Rightarrow> pyexc + method_registry" where
  "get_method_registry rt ops bases =
     (case registry_of_operations ops [] of
        Inl e \<Rightarrow> Inl e
      | Inr reg \<Rightarrow> registry_of_classes rt bases reg)"

subsection \<open>Construction and the mutating operations\<close>

text \<open>
  \<open>__init__\<close>: the new Router, or the exception that building the registry raised (then
  there is no Router).
\<close>

definition Manipulator_init ::
  "pyrt \<Rightarrow> pyval \<Rightarrow> pytype list option \<Rightarrow> (string \<times> 'w handler) list option \<Rightarrow> bool
     \<Rightarrow> pyexc + 'w manipulator" where
  "Manipulator_init rt obj base_classes_arg operations_arg strict =
     (let bases0 = (case base_classes_arg of None \<Rightarrow> [] | Some bs \<Rightarrow> bs);
          bases = (if obj \<noteq> PNone \<and> type_of obj \<notin> set bases0 then bases0 @ [type_of obj] else bases0);
          ops = (case operations_arg of None \<Rightarrow> [] | Some d \<Rightarrow> d)
      in case get_method_registry rt ops bases of
           Inl e \<Rightarrow> Inl e
         | Inr reg \<Rightarrow>
             Inr \<lparr>managing_object = obj, strict_type_check = strict, base_classes = bases,
                  operations = ops, registry = reg\<rparr>)"

text \<open>
  \<open>update_registry\<close> returns the exception it raises, if any, and the Router as the call
  leaves it: the operations are cleared and the base classes extended before the registry
  is built, so an exception of \<open>_get_method_registry\<close> leaves these changes and the old
  registry.
\<close>

definition update_registry ::
  "pyrt \<Rightarrow> 'w manipulator \<Rightarrow> pytype list option \<Rightarrow> bool \<Rightarrow> pyexc option \<times> 'w manipulator" where
  "update_registry rt r additional_classes clear_operations =
     (let r1 = (if clear_operations then r\<lparr>operations := []\<rparr> else r);
          r2 = (case additional_classes of
                  None \<Rightarrow> r1
                | Some cs \<Rightarrow>
                    if cs \<noteq> []
                    then r1\<lparr>base_classes := base_classes r1 @ filter (\<lambda>cls. cls \<notin> set (base_classes r1)) cs\<rparr>
                    else r1)
      in case get_method_registry rt (operations r2) (base_classes r2) of
           Inl e \<Rightarrow> (Some e, r2)
         | Inr reg \<Rightarrow> (None, r2\<lparr>registry := reg\<rparr>))"

definition set_managing_object ::
  "pyrt \<Rightarrow> 'w manipulator \<Rightarrow> pyval \<Rightarrow> pyexc option \<times> 'w manipulator" where
  "set_managing_object rt r obj =
     (let r1 = r\<lparr>managing_object := obj\<rparr>
      in if obj \<noteq> PNone \<and> type_of obj \<notin> set (base_classes r1)
         then update_registry rt (r1\<lparr>base_classes := base_classes r1 @ [type_of obj]\<rparr>) None False
         else (None, r1))"

definition get_managing_object :: "'w manipulator \<Rightarrow> pyval" where
  "get_managing_object r = managing_object r"

text \<open>
  \<open>register_operation\<close> returns the exception it raises, if any, and the Router as the
  call leaves it. The two \<open>ValueError\<close>s and an exception of the assignment to
  \<open>_operation\<close> (line 145) come before the Router is changed. The handler stored is the
  one passed, with \<open>_operation\<close> set. An exception of \<open>inspect.getmembers\<close> (line 151)
  comes after the handler was stored in the operations table (line 146) and leaves it
  there.
\<close>

definition register_operation ::
  "'w manipulator \<Rightarrow> pyval \<Rightarrow> 'w handler \<Rightarrow> pyexc option \<times> 'w manipulator" where
  "register_operation r operation super_instance =
     (case operation of
        PStr name \<Rightarrow>
          if name = [] then (Some (ValueError ''Operation name must be a non-empty string''), r)
          else if \<not> has_key (h_members super_instance) ''execute''
          then (Some (ValueError (''Super-instance for '' @ [CHR 0x27] @ name @ [CHR 0x27]
                                   @ '' must have '' @ [CHR 0x27] @ ''execute'' @ [CHR 0x27] @ '' method'')), r)
          else
            (case h_setattr_error super_instance of
               Some e \<Rightarrow> (Some e, r)
             | None \<Rightarrow>
                 (let h = super_instance\<lparr>h_operation := operation\<rparr>;
                      r1 = r\<lparr>operations := AList.update name h (operations r)\<rparr>;
                      super_type = h_type h
                  in if \<not> has_key (registry r1) super_type
                     then (case h_getmembers_error h of
                             Some e \<Rightarrow> (Some e, r1)
                           | None \<Rightarrow>
                               (None, r1\<lparr>registry := AList.update super_type (instance_methods h)
                                                          (registry r1)\<rparr>))
                     else (None, r1)))
      | _ \<Rightarrow> (Some (ValueError ''Operation name must be a non-empty string''), r))"

definition get_methods_for_type :: "'w manipulator \<Rightarrow> pytype \<Rightarrow> pyexc + methods" where
  "get_methods_for_type r obj_type =
     (case map_of (registry r) obj_type of
        None \<Rightarrow> Inl (ValueError (''No methods registered for type '' @ type_name obj_type))
      | Some ms \<Rightarrow> Inr ms)"

definition get_supported_operations :: "'w manipulator \<Rightarrow> string list" where
  "get_supported_operations r = map fst (operations r)"


subsection \<open>Processing requests\<close>

definition quoted :: "string \<Rightarrow> string" where
  "quoted s = [CHR 0x27] @ s @ [CHR 0x27]"

definition validate_object :: "'w manipulator \<Rightarrow> pyval \<Rightarrow> string \<Rightarrow> pyexc + pyval" where
  "validate_object r obj obj_type =
     (let effective_obj = (if obj \<noteq> PNone then obj else managing_object r)
      in if effective_obj = PNone
         then Inl (ValueError (''No '' @ obj_type @ '' or managing object provided''))
         else if strict_type_check r \<and> \<not> has_key (registry r) (type_of effective_obj)
         then Inl (ValueError (''Unsupported object type: '' @ type_str (type_of effective_obj)))
         else Inr effective_obj)"

text \<open>\<open>self._operations.get(operation)\<close>: the keys of the table are strings.\<close>

definition lookup_operation :: "(string \<times> 'w handler) list \<Rightarrow> pyval \<Rightarrow> 'w handler option" where
  "lookup_operation ops operation = (case operation of PStr name \<Rightarrow> map_of ops name | _ \<Rightarrow> None)"

text \<open>
  A value inside an f-string: a string as it is, anything else through \<open>str\<close>, which may
  raise on a value that is not plain.
\<close>

definition py_format :: "pyrt \<Rightarrow> pyval \<Rightarrow> pyexc + string" where
  "py_format rt v =
     (case v of
        PStr s \<Rightarrow> Inr s
      | _ \<Rightarrow> if plain v then Inr (str_of rt v)
             else (case str_error rt v of Some e \<Rightarrow> Inl e | None \<Rightarrow> Inr (str_of rt v)))"

text \<open>
  Lines 338 to 345 of \<open>_process_single_request\<close>: the keyword arguments of \<open>execute\<close>,
  or the envelope of the early return when \<open>attributes\<close> is no dict.
\<close>

definition build_execute_args ::
  "pyval \<Rightarrow> pyval \<Rightarrow> pyval \<Rightarrow> 'w pstate \<Rightarrow> (envelope + payload) \<times> 'w pstate" where
  "build_execute_args effective_obj attributes method st =
     (if truthy attributes \<or> truthy method
      then (case attributes of
              PDict i kvs \<Rightarrow>
                (let (attributes_copy, st1) = new_dict kvs st
                 in (Inr \<lparr>arg_obj = effective_obj, arg_attributes = Some attributes_copy,
                          arg_method = (if truthy method then Some method else None)\<rparr>, st1))
            | _ \<Rightarrow> (Inl (failure effective_obj ''Invalid attributes type''), st))
      else (Inr \<lparr>arg_obj = effective_obj, arg_attributes = None, arg_method = None\<rparr>, st))"

text \<open>\<open>super_result[key]\<close>: a missing key raises \<open>KeyError\<close>.\<close>

definition subscript :: "(string \<times> pyval) list \<Rightarrow> string \<Rightarrow> pyexc + pyval" where
  "subscript d key = (case map_of d key of None \<Rightarrow> Inl (KeyError key) | Some v \<Rightarrow> Inr v)"

text \<open>Lines 350 to 358: the handler's result copied into an envelope.\<close>

definition normalise :: "(string \<times> pyval) list \<Rightarrow> pyexc + envelope" where
  "normalise super_result =
     (case subscript super_result ''status'' of Inl e \<Rightarrow> Inl e | Inr s \<Rightarrow>
      case subscript super_result ''object'' of Inl e \<Rightarrow> Inl e | Inr ob \<Rightarrow>
      case subscript super_result ''method'' of Inl e \<Rightarrow> Inl e | Inr m \<Rightarrow>
      case subscript super_result ''result'' of Inl e \<Rightarrow> Inl e | Inr res \<Rightarrow>
        if \<not> truthy s
        then (case subscript super_result ''error'' of Inl e \<Rightarrow> Inl e | Inr er \<Rightarrow>
                Inr \<lparr>env_status = s, env_object = ob, env_method = m, env_result = res,
                     env_error = Some er\<rparr>)
        else Inr \<lparr>env_status = s, env_object = ob, env_method = m, env_result = res,
                  env_error = None\<rparr>)"

text \<open>
  Lines 347 to 361, the \<open>try\<close> block: the call of \<open>execute\<close> is logged, its effect on the
  application state kept, and \<open>except Exception\<close> turns an exception of the call or of
  the copying into a failing envelope. An exception that does not derive from
  \<open>Exception\<close> is not caught, and an exception of \<open>str(e)\<close> inside the \<open>except\<close> clause
  is raised to the caller.
\<close>

definition run_execute ::
  "'w manipulator \<Rightarrow> 'w handler \<Rightarrow> payload \<Rightarrow> pyval \<Rightarrow> 'w pstate \<Rightarrow> (pyexc + envelope) \<times> 'w pstate" where
  "run_execute r super_instance execute_args effective_obj st =
     (let (out, w) = h_execute super_instance (managing_object r) execute_args (app st);
          st1 = st\<lparr>calls := calls st @ [(h_id super_instance, execute_args)], app := w\<rparr>
      in case out of
           Raises e \<Rightarrow>
             if is_Exception e then (Inr (failure effective_obj (exc_str e)), st1) else (Inl e, st1)
         | Returns super_result \<Rightarrow>
             (case normalise super_result of
                Inl e \<Rightarrow> (Inr (failure effective_obj (exc_str e)), st1)
              | Inr result_dict \<Rightarrow> (Inr result_dict, st1))
         | Raises_unprintable e \<Rightarrow> (Inl e, st1))"

text \<open>
  \<open>_process_single_request\<close> on the items of a request dict. The default \<open>{}\<close> of
  \<open>request.get("attributes", {})\<close> is a new dict, alive while the call runs: the payload
  is built in the state that holds it. A return before that leaves nothing behind, and
  the state is returned as it was passed. Looking up an operation that cannot be hashed
  raises \<open>TypeError\<close> outside any \<open>try\<close>, and so does an exception of \<open>str(operation)\<close>
  in the message for an operation that is not registered.
\<close>

definition process_single_request ::
  "pyrt \<Rightarrow> 'w manipulator \<Rightarrow> (string \<times> pyval) list \<Rightarrow> 'w pstate \<Rightarrow> (pyexc + envelope) \<times> 'w pstate" where
  "process_single_request rt r request st =
     (let operation = dict_get request ''operation'';
          obj = dict_get request ''obj'';
          method = dict_get request ''method'';
          (dflt, st1) = new_dict [] st;
          attributes = (case map_of request ''attributes'' of None \<Rightarrow> dflt | Some a \<Rightarrow> a)
      in if \<not> truthy operation
         then (Inr (failure obj ''No operation specified in request''), st)
         else if \<not> hashable operation
         then (Inl (TypeError (''unhashable type: '' @ quoted (type_name (type_of operation)))), st)
         else
           (case lookup_operation (operations r) operation of
              None \<Rightarrow>
                (case py_format rt operation of
                   Inl e \<Rightarrow> (Inl e, st)
                 | Inr s \<Rightarrow> (Inr (failure obj (''Operation '' @ quoted s @ '' not registered'')), st))
            | Some super_instance \<Rightarrow>
                (case validate_object r obj ''request object'' of
                   Inl e \<Rightarrow> (Inr (failure obj (exc_str e)), st)
                 | Inr effective_obj \<Rightarrow>
                     (case build_execute_args effective_obj attributes method st1 of
                        (Inl env, st2) \<Rightarrow> (Inr env, st)
                      | (Inr execute_args, st2) \<Rightarrow>
                          run_execute r super_instance execute_args effective_obj st2))))"

text \<open>The type checks that \<open>process_request\<close> makes on \<open>method\<close> and \<open>attributes\<close>.\<close>

definition invalid_method :: "(string \<times> pyval) list \<Rightarrow> bool" where
  "invalid_method request =
     (has_key request ''method''
      \<and> \<not> (isinstance_str (dict_get request ''method'') \<or> dict_get request ''method'' = PNone))"

definition invalid_attributes :: "(string \<times> pyval) list \<Rightarrow> bool" where
  "invalid_attributes request =
     (has_key request ''attributes''
      \<and> \<not> (isinstance_dict (dict_get request ''attributes'') \<or> dict_get request ''attributes'' = PNone))"

definition invalid_method_msg :: "(string \<times> pyval) list \<Rightarrow> string" where
  "invalid_method_msg request =
     ''Invalid '' @ quoted ''method'' @ '' type: expected str or None, got ''
       @ type_name (type_of (dict_get request ''method''))"

definition invalid_attributes_msg :: "(string \<times> pyval) list \<Rightarrow> string" where
  "invalid_attributes_msg request =
     ''Invalid '' @ quoted ''attributes'' @ '' type: expected dict or None, got ''
       @ type_name (type_of (dict_get request ''attributes''))"

text \<open>
  The body of the loop of \<open>process_request\<close> over the sub-requests, for one sub-request
  that is a dict: the envelope stored under its id, or the exception that leaves the loop.
\<close>

definition process_sub_request ::
  "pyrt \<Rightarrow> 'w manipulator \<Rightarrow> (string \<times> pyval) list \<Rightarrow> 'w pstate \<Rightarrow> (pyexc + envelope) \<times> 'w pstate" where
  "process_sub_request rt r sub_request st =
     (if \<not> has_key sub_request ''operation''
      then (Inr (failure (dict_get sub_request ''obj'')
                   (''Missing '' @ quoted ''operation'' @ '' in sub-request'')), st)
      else if invalid_method sub_request
      then (Inr (failure (dict_get sub_request ''obj'') (invalid_method_msg sub_request)), st)
      else if invalid_attributes sub_request
      then (Inr (failure (dict_get sub_request ''obj'') (invalid_attributes_msg sub_request)), st)
      else process_single_request rt r sub_request st)"

text \<open>
  Line 287, after the loop: the message of \<open>logger.debug\<close> is an f-string with
  \<open>{results}\<close>, built outside any \<open>try\<close>. It takes \<open>repr\<close> of every value of every
  envelope, in order, and the first exception of a \<open>repr\<close> is raised to the caller. (The
  other messages that the source logs hold strings, type names and lengths only.)
\<close>

definition envelope_values :: "envelope \<Rightarrow> pyval list" where
  "envelope_values env =
     [env_status env, env_object env, env_method env, env_result env]
       @ (case env_error env of None \<Rightarrow> [] | Some er \<Rightarrow> [er])"

definition repr_raises :: "pyrt \<Rightarrow> pyval \<Rightarrow> pyexc option" where
  "repr_raises rt v = (if plain v then None else repr_error rt v)"

fun first_raise :: "pyexc option list \<Rightarrow> pyexc option" where
  "first_raise [] = None"
| "first_raise (None # rest) = first_raise rest"
| "first_raise (Some e # rest) = Some e"

definition repr_results :: "pyrt \<Rightarrow> (string \<times> envelope) list \<Rightarrow> pyexc option" where
  "repr_results rt results =
     first_raise (map (repr_raises rt) (concat (map (\<lambda>(req_id, env). envelope_values env) results)))"

text \<open>
  The loop itself, \<open>results[req_id] = ...\<close> for each item in turn. The loop runs only
  after every value was found to be a dict; on a value that is no dict the test
  \<open>"operation" not in sub_request\<close> would raise.
\<close>

fun process_sequence ::
  "pyrt \<Rightarrow> 'w manipulator \<Rightarrow> (string \<times> pyval) list \<Rightarrow> (string \<times> envelope) list \<Rightarrow> 'w pstate
     \<Rightarrow> (pyexc + (string \<times> envelope) list) \<times> 'w pstate" where
  "process_sequence rt r [] results st = (Inr results, st)"
| "process_sequence rt r ((req_id, sub_request) # rest) results st =
     (case sub_request of
        PDict i sub \<Rightarrow>
          (case process_sub_request rt r sub st of
             (Inl e, st1) \<Rightarrow> (Inl e, st1)
           | (Inr result, st1) \<Rightarrow> process_sequence rt r rest (AList.update req_id result results) st1)
      | _ \<Rightarrow>
          (Inl (TypeError (''argument of type '' @ quoted (type_name (type_of sub_request))
                            @ '' is not iterable'')), st))"

definition process_request ::
  "pyrt \<Rightarrow> 'w manipulator \<Rightarrow> pyval \<Rightarrow> 'w pstate \<Rightarrow> (pyexc + response) \<times> 'w pstate" where
  "process_request rt r request st =
     (case request of
        PDict i req \<Rightarrow>
          if req \<noteq> [] \<and> \<not> has_key req ''operation''
          then
            (let invalid_sub_requests =
                   map (\<lambda>(k, v). (k, type_name (type_of v)))
                     (filter (\<lambda>(k, v). \<not> isinstance_dict v) req)
             in if invalid_sub_requests \<noteq> []
                then (Inr (Single (failure PNone
                        (''Invalid sub-request type in sequence: '' @ repr_pairs rt invalid_sub_requests))), st)
                else (case process_sequence rt r req [] st of
                        (Inl e, st1) \<Rightarrow> (Inl e, st1)
                      | (Inr results, st1) \<Rightarrow>
                          (case repr_results rt results of
                             Some e \<Rightarrow> (Inl e, st1)
                           | None \<Rightarrow> (Inr (Batch results), st1))))
          else if \<not> has_key req ''operation''
          then (Inr (Single (failure (dict_get req ''obj'') ''No operation specified in request'')), st)
          else if invalid_method req
          then (Inr (Single (failure (dict_get req ''obj'') (invalid_method_msg req))), st)
          else if invalid_attributes req
          then (Inr (Single (failure (dict_get req ''obj'') (invalid_attributes_msg req))), st)
          else (case process_single_request rt r req st of
                  (Inl e, st1) \<Rightarrow> (Inl e, st1)
                | (Inr env, st1) \<Rightarrow> (Inr (Single env), st1))
      | _ \<Rightarrow> (Inl (TypeError (''Request must be a dictionary, got '' @ type_name (type_of request))), st))"


section \<open>Notions used to state the properties\<close>








text \<open>
  A status=false envelope with an error, and the envelope that a response holds under a
  request id.
\<close>

definition is_failure :: "envelope \<Rightarrow> bool" where
  "is_failure env = (env_status env = PBool False \<and> env_error env \<noteq> None)"

fun envelope_for :: "response \<Rightarrow> string \<Rightarrow> envelope option" where
  "envelope_for (Single env) req_id = None"
| "envelope_for (Batch results) req_id = map_of results req_id"


text \<open>
  The items of a dict, and what a value holding a dict looks like after the assignment
  \<open>d[key] = value\<close> was made on the dict object with identity \<open>d\<close>: the items of that
  object change, those of every other object stay.
\<close>

definition dict_items :: "pyval \<Rightarrow> (string \<times> pyval) list" where
  "dict_items v = (case v of PDict j kvs \<Rightarrow> kvs | _ \<Rightarrow> [])"

definition after_setitem :: "nat \<Rightarrow> string \<Rightarrow> pyval \<Rightarrow> pyval \<Rightarrow> pyval" where
  "after_setitem d key value x =
     (case x of PDict j kvs \<Rightarrow> if j = d then PDict j (AList.update key value kvs) else x
              | _ \<Rightarrow> x)"


text \<open>
  The registry that \<open>_get_method_registry\<close> computes from the Router's current
  operations and base classes, when it returns.
\<close>

definition rebuilt :: "pyrt \<Rightarrow> 'w manipulator \<Rightarrow> pyexc + method_registry" where
  "rebuilt rt r = get_method_registry rt (operations r) (base_classes r)"

text \<open>
  The registry has an entry for the type of every registered handler and for every base
  class that has methods.
\<close>

definition registry_covers :: "pyrt \<Rightarrow> 'w manipulator \<Rightarrow> bool" where
  "registry_covers rt r =
     (list_all (\<lambda>(name, h). has_key (registry r) (h_type h)) (operations r)
      \<and> list_all (\<lambda>cls. case class_methods rt cls of
                            Inl e \<Rightarrow> True
                          | Inr ms \<Rightarrow> ms = [] \<or> has_key (registry r) cls) (base_classes r))"

text \<open>
  The Router's public mutating operations after construction, and a sequence of them
  that all return, applied in order, each to the Router as the one before left it.
\<close>

datatype 'w command =
    Register_operation pyval "'w handler"
  | Set_managing_object pyval
  | Update_registry "pytype list option" bool

fun apply_command :: "pyrt \<Rightarrow> 'w manipulator \<Rightarrow> 'w command \<Rightarrow> pyexc option \<times> 'w manipulator" where
  "apply_command rt r (Register_operation operation super_instance)
     = register_operation r operation super_instance"
| "apply_command rt r (Set_managing_object obj) = set_managing_object rt r obj"
| "apply_command rt r (Update_registry additional_classes clear_operations)
     = update_registry rt r additional_classes clear_operations"

fun run_commands :: "pyrt \<Rightarrow> 'w manipulator \<Rightarrow> 'w command list \<Rightarrow> pyexc + 'w manipulator" where
  "run_commands rt r [] = Inr r"
| "run_commands rt r (c # cs) =
     (case apply_command rt r c of
        (Some e, r1) \<Rightarrow> Inl e
      | (None, r1) \<Rightarrow> run_commands rt r1 cs)"

section \<open>An example configuration\<close>

text \<open>
  A Router as \<open>WizardManipulator\<close> sets it up, cut down to what the examples below need:
  the project as managing object, the handler class \<open>BlockManager\<close> registered for
  \<open>manage\<close>, and two handlers whose \<open>execute\<close> raises.
\<close>

fun join_with :: "string \<Rightarrow> string list \<Rightarrow> string" where
  "join_with sep [] = []"
| "join_with sep [x] = x"
| "join_with sep (x # y # ys) = x @ sep @ join_with sep (y # ys)"

definition example_repr_pairs :: "(string \<times> string) list \<Rightarrow> string" where
  "example_repr_pairs ps =
     ''['' @ join_with '', '' (map (\<lambda>(k, t). ''('' @ quoted k @ '', '' @ quoted t @ '')'') ps) @ '']''"

definition BlockManager :: pytype where
  "BlockManager = Class ''wizard.super.wizard_manager'' ''BlockManager''"

definition example_rt :: pyrt where
  "example_rt =
     \<lparr>class_members = (\<lambda>cls. if cls = BlockManager
          then [(''__init__'', (Function, 1)), (''_manage_wizardblock'', (Function, 2)),
                (''execute'', (Function, 3))]
          else []),
      getmembers_error = (\<lambda>cls. None),
      str_of = (\<lambda>v. ''<object>''),
      str_error = (\<lambda>v. None),
      repr_error = (\<lambda>v. None),
      repr_pairs = example_repr_pairs\<rparr>"

definition manage_handler :: "nat handler" where
  "manage_handler =
     \<lparr>h_type = BlockManager, h_id = 1,
      h_members = [(''__init__'', (Method, 11)), (''_manage_wizardblock'', (Method, 12)),
                   (''_operation'', (Data, 13)), (''execute'', (Method, 14))],
      h_operation = PStr ''manage'',
      h_setattr_error = None, h_getmembers_error = None,
      h_execute = (\<lambda>mo args w.
         (Returns [(''status'', PBool True), (''object'', arg_obj args),
                   (''method'', PStr ''_manage_wizardblock''), (''result'', PNone)], Suc w))\<rparr>"

definition failing_handler :: "nat handler" where
  "failing_handler =
     \<lparr>h_type = Class ''tests'' ''Failing'', h_id = 2,
      h_members = [(''execute'', (Method, 21))],
      h_operation = PStr ''fail'',
      h_setattr_error = None, h_getmembers_error = None,
      h_execute = (\<lambda>mo args w. (Raises (PyExc ''RuntimeError'' True ''boom''), Suc w))\<rparr>"

definition exiting_handler :: "nat handler" where
  "exiting_handler =
     \<lparr>h_type = Class ''tests'' ''Exiting'', h_id = 3,
      h_members = [(''execute'', (Method, 31))],
      h_operation = PStr ''quit'',
      h_setattr_error = None, h_getmembers_error = None,
      h_execute = (\<lambda>mo args w. (Raises (PyExc ''SystemExit'' False ''0''), w))\<rparr>"

text \<open>
  A handler with \<open>execute\<close> and a property whose getter raises, so that
  \<open>inspect.getmembers\<close> raises on it.
\<close>

definition broken_handler :: "nat handler" where
  "broken_handler =
     \<lparr>h_type = Class ''tests'' ''Broken'', h_id = 4,
      h_members = [(''execute'', (Method, 41)), (''state'', (Property, 42))],
      h_operation = PNone,
      h_setattr_error = None,
      h_getmembers_error = Some (PyExc ''RuntimeError'' True ''boom''),
      h_execute = (\<lambda>mo args w. (Returns [], w))\<rparr>"

definition project :: pyval where
  "project = PObj ''wizard.super.wizard_project'' ''WizardProject'' 1 True"

text \<open>The Routers below are those that the constructor returns.\<close>

definition example_router :: "nat manipulator" where
  "example_router =
     projr (Manipulator_init example_rt project None
              (Some [(''manage'', manage_handler), (''fail'', failing_handler)]) False)"

definition st0 :: "nat pstate" where
  "st0 = \<lparr>heap_next = 100, calls = [], app = 0\<rparr>"

definition exiting_router :: "nat manipulator" where
  "exiting_router =
     projr (Manipulator_init example_rt project None
              (Some [(''manage'', manage_handler), (''quit'', exiting_handler)]) False)"

definition block :: "nat \<Rightarrow> pyval" where
  "block n = PObj ''wizard.base.wizard_block'' ''WizardBlock'' n True"

text \<open>A runtime in which \<open>repr\<close> of one object raises.\<close>

definition unprintable_rt :: pyrt where
  "unprintable_rt =
     example_rt\<lparr>repr_error := (\<lambda>v. if v = block 9 then Some (PyExc ''RuntimeError'' True ''bad repr'')
                                     else None)\<rparr>"

definition empty_router :: "nat manipulator" where
  "empty_router = projr (Manipulator_init example_rt PNone None None False)"

definition base_class_router :: "nat manipulator" where
  "base_class_router = projr (Manipulator_init example_rt PNone (Some [BlockManager]) None False)"

section \<open>Verified properties\<close>

subsection \<open>Auxiliary facts\<close>

lemma map_of_has_key: "map_of req k = Some v \<Longrightarrow> has_key req k"
  unfolding has_key_def by (metis map_of_eq_None_iff option.distinct(1) set_map)

lemma example_router_simps:
  "operations example_router = [(''manage'', manage_handler), (''fail'', failing_handler)]"
  "managing_object example_router = project"
  "strict_type_check example_router = False"
  by (simp_all add: example_router_def Manipulator_init_def get_method_registry_def class_methods_def
                    example_rt_def manage_handler_def failing_handler_def project_def Let_def)

lemma is_failure_failure [simp]: "is_failure (failure obj msg)"
  by (simp add: is_failure_def failure_def)





lemma build_execute_args_Inr:
  assumes "build_execute_args eff attributes method st = (Inr args, st2)"
  shows "calls st2 = calls st \<and> app st2 = app st \<and> arg_obj args = eff
       \<and> arg_attributes args
            = (if truthy attributes \<or> truthy method
               then Some (PDict (heap_next st) (dict_items attributes)) else None)
       \<and> arg_method args = (if truthy method then Some method else None)
       \<and> (truthy attributes \<or> truthy method \<longrightarrow> isinstance_dict attributes)"
  using assms
  by (cases attributes) (auto simp: build_execute_args_def new_dict_def dict_items_def split: if_splits)

lemma run_execute_state:
  assumes "run_execute r h args eff st2 = (res, st1)"
  shows "calls st1 = calls st2 @ [(h_id h, args)]
       \<and> app st1 = snd (h_execute h (managing_object r) args (app st2))
       \<and> heap_next st1 = heap_next st2"
  using assms
  by (auto simp: run_execute_def Let_def split: prod.splits outcome.splits if_splits sum.splits)

lemma run_execute_Raises:
  assumes "h_execute h (managing_object r) args (app st2) = (Raises e, w)" and "is_Exception e"
  shows "run_execute r h args eff st2
           = (Inr (failure eff (exc_str e)), st2\<lparr>calls := calls st2 @ [(h_id h, args)], app := w\<rparr>)"
  using assms by (simp add: run_execute_def)

lemma run_execute_Raises_uncaught:
  assumes "h_execute h (managing_object r) args (app st2) = (Raises e, w)" and "\<not> is_Exception e"
  shows "run_execute r h args eff st2
           = (Inl e, st2\<lparr>calls := calls st2 @ [(h_id h, args)], app := w\<rparr>)"
  using assms by (simp add: run_execute_def)

lemma process_single_request_cases:
  assumes run: "process_single_request rt r req st = (res, st1)"
  shows "st1 = st
       \<or> (\<exists>h eff args st2.
             lookup_operation (operations r) (dict_get req ''operation'') = Some h
           \<and> validate_object r (dict_get req ''obj'') ''request object'' = Inr eff
           \<and> build_execute_args eff
                (case map_of req ''attributes'' of None \<Rightarrow> PDict (heap_next st) [] | Some a \<Rightarrow> a)
                (dict_get req ''method'') (st\<lparr>heap_next := Suc (heap_next st)\<rparr>) = (Inr args, st2)
           \<and> run_execute r h args eff st2 = (res, st1))"
proof -
  let ?st' = "st\<lparr>heap_next := Suc (heap_next st)\<rparr>"
  let ?attrs = "case map_of req ''attributes'' of None \<Rightarrow> PDict (heap_next st) [] | Some a \<Rightarrow> a"
  show ?thesis
  proof (cases "truthy (dict_get req ''operation'') \<and> hashable (dict_get req ''operation'')")
    case False
    with run show ?thesis
      by (auto simp: process_single_request_def new_dict_def Let_def split: if_splits)
  next
    case th: True
    show ?thesis
    proof (cases "lookup_operation (operations r) (dict_get req ''operation'')")
      case None
      with run th show ?thesis
        by (auto simp: process_single_request_def new_dict_def Let_def split: sum.splits)
    next
      case (Some h)
      show ?thesis
      proof (cases "validate_object r (dict_get req ''obj'') ''request object''")
        case (Inl e)
        with run th Some show ?thesis by (auto simp: process_single_request_def new_dict_def Let_def)
      next
        case (Inr eff)
        obtain b st2 where b: "build_execute_args eff ?attrs (dict_get req ''method'') ?st' = (b, st2)"
          by (cases "build_execute_args eff ?attrs (dict_get req ''method'') ?st'")
        show ?thesis
        proof (cases b)
          case (Inl env)
          with run th Some Inr b show ?thesis
            by (auto simp: process_single_request_def new_dict_def Let_def)
        next
          case (Inr args)
          with run th Some \<open>validate_object r (dict_get req ''obj'') ''request object'' = Inr eff\<close> b
          have "run_execute r h args eff st2 = (res, st1)"
            by (auto simp: process_single_request_def new_dict_def Let_def)
          with Some \<open>validate_object r (dict_get req ''obj'') ''request object'' = Inr eff\<close> b Inr
          show ?thesis by blast
        qed
      qed
    qed
  qed
qed





lemma process_request_single:
  assumes run: "process_request rt r (PDict i req) st = (res, st1)"
    and k: "has_key req ''operation''" and d: "calls st1 \<noteq> calls st"
  shows "\<exists>res1. process_single_request rt r req st = (res1, st1)
           \<and> res = (case res1 of Inl e \<Rightarrow> Inl e | Inr env \<Rightarrow> Inr (Single env))"
  using assms
  by (auto simp: process_request_def split: if_splits prod.splits sum.splits)

lemma request_attributes_simps:
  "truthy (case map_of req ''attributes'' of None \<Rightarrow> PDict n [] | Some a \<Rightarrow> a)
     = truthy (dict_get req ''attributes'')"
  "dict_items (case map_of req ''attributes'' of None \<Rightarrow> PDict n [] | Some a \<Rightarrow> a)
     = dict_items (dict_get req ''attributes'')"
  by (simp_all add: dict_get_def dict_items_def split: option.splits)

lemma process_single_request_dispatched:
  assumes run: "process_single_request rt r req st = (res, st1)"
    and disp: "calls st1 = calls st @ [(hid, args)]"
  shows "\<exists>h. lookup_operation (operations r) (dict_get req ''operation'') = Some h \<and> hid = h_id h
           \<and> validate_object r (dict_get req ''obj'') ''request object'' = Inr (arg_obj args)
           \<and> arg_attributes args
                = (if truthy (dict_get req ''attributes'') \<or> truthy (dict_get req ''method'')
                   then Some (PDict (Suc (heap_next st)) (dict_items (dict_get req ''attributes'')))
                   else None)
           \<and> arg_method args
                = (if truthy (dict_get req ''method'') then Some (dict_get req ''method'') else None)
           \<and> run_execute r h args (arg_obj args)
                (st1\<lparr>calls := calls st, app := app st\<rparr>) = (res, st1)"
proof -
  let ?st' = "st\<lparr>heap_next := Suc (heap_next st)\<rparr>"
  let ?attrs = "case map_of req ''attributes'' of None \<Rightarrow> PDict (heap_next st) [] | Some a \<Rightarrow> a"
  from disp have "st1 \<noteq> st" by auto
  with process_single_request_cases[OF run]
  obtain h eff args' st2 where
        l: "lookup_operation (operations r) (dict_get req ''operation'') = Some h"
    and v: "validate_object r (dict_get req ''obj'') ''request object'' = Inr eff"
    and b: "build_execute_args eff ?attrs (dict_get req ''method'') ?st' = (Inr args', st2)"
    and x: "run_execute r h args' eff st2 = (res, st1)"
    by blast
  note bs = build_execute_args_Inr[OF b]
  note xs = run_execute_state[OF x]
  from bs xs disp have a: "args' = args" and hid: "hid = h_id h" by simp_all
  from b have st2: "st2 = st1\<lparr>calls := calls st, app := app st\<rparr>"
    using xs bs
    by (cases ?attrs) (auto simp: build_execute_args_def new_dict_def split: if_splits)
  from l v bs a hid x st2 show ?thesis
    by (auto simp: request_attributes_simps)
qed


lemmas run_defs =
  process_request_def process_sub_request_def process_single_request_def
  build_execute_args_def run_execute_def normalise_def subscript_def validate_object_def
  lookup_operation_def invalid_method_def invalid_attributes_def has_key_def dict_get_def
  new_dict_def py_format_def repr_results_def repr_raises_def envelope_values_def Let_def

lemmas example_defs =
  example_router_simps manage_handler_def failing_handler_def exiting_handler_def
  project_def block_def st0_def

lemma exiting_router_simps:
  "operations exiting_router = [(''manage'', manage_handler), (''quit'', exiting_handler)]"
  "managing_object exiting_router = project"
  "strict_type_check exiting_router = False"
  by (simp_all add: exiting_router_def Manipulator_init_def get_method_registry_def class_methods_def
                    example_rt_def manage_handler_def exiting_handler_def project_def Let_def)








lemma process_sequence_keeps:
  "process_sequence rt r req acc st = (Inr results, st1) \<Longrightarrow> k \<notin> fst ` set req \<Longrightarrow>
   map_of results k = map_of acc k"
proof (induction req arbitrary: acc st)
  case Nil
  then show ?case by simp
next
  case (Cons p rest)
  obtain k' v where p: "p = (k', v)" by (cases p)
  from Cons.prems p show ?case
    by (cases v)
       (auto simp: update_conv' split: prod.splits sum.splits dest!: Cons.IH)
qed

lemma process_sequence_lookup:
  "process_sequence rt r req acc st = (Inr results, st1) \<Longrightarrow> distinct (map fst req) \<Longrightarrow>
   (k, PDict j sub) \<in> set req \<Longrightarrow>
   \<exists>s env s'. process_sub_request rt r sub s = (Inr env, s') \<and> map_of results k = Some env"
proof (induction req arbitrary: acc st)
  case Nil
  then show ?case by simp
next
  case (Cons p rest)
  obtain k' v where p: "p = (k', v)" by (cases p)
  from Cons.prems(1) p obtain j' sub' where v: "v = PDict j' sub'" by (cases v) auto
  from Cons.prems(1) p v obtain env sta where
    s: "process_sub_request rt r sub' st = (Inr env, sta)"
    and rest: "process_sequence rt r rest (AList.update k' env acc) sta = (Inr results, st1)"
    by (auto split: prod.splits sum.splits)
  show ?case
  proof (cases "(k, PDict j sub) \<in> set rest")
    case True
    from Cons.IH[OF rest _ True] Cons.prems(2) show ?thesis by simp
  next
    case False
    with Cons.prems(3) p v have eq: "k' = k" "sub' = sub" by auto
    with Cons.prems(2) p have "k \<notin> fst ` set rest" by auto
    from process_sequence_keeps[OF rest this] eq
    have "map_of results k = Some env" by (simp add: update_conv')
    with s eq show ?thesis by blast
  qed
qed

lemma process_sequence_missing_operation:
  assumes "process_sequence rt r req acc st = (Inr results, st1)" and "distinct (map fst req)"
    and "(k, PDict j sub) \<in> set req" and "\<not> has_key sub ''operation''"
  shows "map_of results k
     = Some (failure (dict_get sub ''obj'') (''Missing '' @ quoted ''operation'' @ '' in sub-request''))"
  using process_sequence_lookup[OF assms(1-3)] assms(4)
  by (auto simp: process_sub_request_def)


lemmas registry_defs =
  Manipulator_init_def register_operation_def get_methods_for_type_def update_registry_def
  set_managing_object_def get_method_registry_def rebuilt_def instance_methods_def
  class_methods_def startswith_def ismethod_def isfunction_def isinstance_type_or_property_def
  has_key_def Let_def

lemma has_key_map_of: "has_key al k \<longleftrightarrow> map_of al k \<noteq> None"
  by (simp add: has_key_def map_of_eq_None_iff)

lemma keys_registry_of_operations:
  "registry_of_operations ops reg = Inr reg1 \<Longrightarrow>
   fst ` set reg1 = fst ` set reg \<union> (\<lambda>p. h_type (snd p)) ` set ops"
proof (induction ops arbitrary: reg)
  case Nil
  then show ?case by simp
next
  case (Cons p ops)
  obtain operation inst where p: "p = (operation, inst)" by (cases p)
  from Cons.prems p have g: "h_getmembers_error inst = None"
    and rest: "registry_of_operations ops (AList.update (h_type inst) (instance_methods inst) reg) = Inr reg1"
    by (auto split: option.splits)
  from Cons.IH[OF rest] p show ?case by (auto simp: dom_update)
qed

lemma keys_registry_of_classes:
  "registry_of_classes rt bases reg = Inr reg1 \<Longrightarrow>
   fst ` set reg1
     = fst ` set reg \<union> {cls \<in> set bases. \<exists>ms. class_methods rt cls = Inr ms \<and> ms \<noteq> []}"
proof (induction bases arbitrary: reg)
  case Nil
  then show ?case by simp
next
  case (Cons cls bases)
  from Cons.prems obtain ms where ms: "class_methods rt cls = Inr ms"
    and rest: "registry_of_classes rt bases (if ms \<noteq> [] then AList.update cls ms reg else reg) = Inr reg1"
    by (auto split: sum.splits)
  from Cons.IH[OF rest] ms show ?case by (auto simp: dom_update)
qed

lemma keys_get_method_registry:
  assumes "get_method_registry rt ops bases = Inr reg"
  shows "fst ` set reg
     = (\<lambda>p. h_type (snd p)) ` set ops \<union> {cls \<in> set bases. \<exists>ms. class_methods rt cls = Inr ms \<and> ms \<noteq> []}"
proof -
  from assms obtain reg0 where a: "registry_of_operations ops [] = Inr reg0"
    and b: "registry_of_classes rt bases reg0 = Inr reg"
    by (auto simp: get_method_registry_def split: sum.splits)
  from keys_registry_of_operations[OF a] keys_registry_of_classes[OF b] show ?thesis by simp
qed

lemma registry_init:
  "Manipulator_init rt obj bases ops strict = Inr r0 \<Longrightarrow> rebuilt rt r0 = Inr (registry r0)"
  by (auto simp: Manipulator_init_def rebuilt_def Let_def split: sum.splits)

lemma registry_update_registry:
  "update_registry rt r add clr = (None, r1) \<Longrightarrow> rebuilt rt r1 = Inr (registry r1)"
  by (auto simp: update_registry_def rebuilt_def Let_def split: sum.splits option.splits if_splits)

lemma registry_set_managing_object_new:
  "obj \<noteq> PNone \<and> type_of obj \<notin> set (base_classes r) \<Longrightarrow>
   set_managing_object rt r obj = (None, r1) \<Longrightarrow> rebuilt rt r1 = Inr (registry r1)"
  by (simp add: set_managing_object_def Let_def registry_update_registry)

lemma registry_set_managing_object_old:
  "\<not> (obj \<noteq> PNone \<and> type_of obj \<notin> set (base_classes r)) \<Longrightarrow>
   set_managing_object rt r obj = (None, r\<lparr>managing_object := obj\<rparr>)"
  by (auto simp: set_managing_object_def Let_def)

lemma register_operation_registry:
  "register_operation r operation h = (None, r1) \<Longrightarrow>
   registry r1 = (if has_key (registry r) (h_type h) then registry r
                  else AList.update (h_type h) (instance_methods h) (registry r))"
  by (cases operation)
     (auto simp: register_operation_def Let_def instance_methods_def split: if_splits option.splits)

lemma register_operation_base_classes:
  "register_operation r operation h = (None, r1) \<Longrightarrow> base_classes r1 = base_classes r"
  by (cases operation)
     (auto simp: register_operation_def Let_def split: if_splits option.splits)

lemma register_operation_operations:
  "register_operation r operation h = (None, r1) \<Longrightarrow>
   \<exists>name. operations r1 = AList.update name (h\<lparr>h_operation := operation\<rparr>) (operations r)"
  by (cases operation)
     (auto simp: register_operation_def Let_def split: if_splits option.splits)

lemma operations_types_update:
  "(\<lambda>p. h_type (snd p)) ` set (AList.update name h ops)
     \<subseteq> insert (h_type h) ((\<lambda>p. h_type (snd p)) ` set ops)"
  by (induction ops) auto

text \<open>
  The invariant behind the inclusion: the registry has an entry for the type of every
  registered handler and for every base class that has methods.
\<close>

lemma registry_covers_keys:
  "registry_covers rt r \<longleftrightarrow>
     (\<lambda>p. h_type (snd p)) ` set (operations r)
       \<union> {cls \<in> set (base_classes r). \<exists>ms. class_methods rt cls = Inr ms \<and> ms \<noteq> []}
     \<subseteq> fst ` set (registry r)"
proof -
  have a: "list_all (\<lambda>(name, h). has_key (registry r) (h_type h)) (operations r)
             \<longleftrightarrow> (\<lambda>p. h_type (snd p)) ` set (operations r) \<subseteq> fst ` set (registry r)"
    unfolding list_all_iff has_key_def image_subset_iff by (auto simp: split_def)
  have b: "list_all (\<lambda>cls. case class_methods rt cls of
                            Inl e \<Rightarrow> True
                          | Inr ms \<Rightarrow> ms = [] \<or> has_key (registry r) cls) (base_classes r)
             \<longleftrightarrow> {cls \<in> set (base_classes r). \<exists>ms. class_methods rt cls = Inr ms \<and> ms \<noteq> []}
                    \<subseteq> fst ` set (registry r)"
  proof -
    have "(case class_methods rt cls of Inl e \<Rightarrow> True | Inr ms \<Rightarrow> ms = [] \<or> has_key (registry r) cls)
            \<longleftrightarrow> ((\<exists>ms. class_methods rt cls = Inr ms \<and> ms \<noteq> []) \<longrightarrow> cls \<in> fst ` set (registry r))"
      for cls
      by (cases "class_methods rt cls") (auto simp: has_key_def)
    then show ?thesis unfolding list_all_iff by blast
  qed
  show ?thesis unfolding registry_covers_def a b by simp
qed

lemma covers_rebuilt:
  assumes "rebuilt rt r = Inr (registry r)"
  shows "registry_covers rt r"
  using keys_get_method_registry[OF assms[unfolded rebuilt_def]]
  unfolding registry_covers_keys by auto

lemma covers_register:
  assumes inv: "registry_covers rt r" and reg: "register_operation r operation h = (None, r1)"
  shows "registry_covers rt r1"
proof -
  note regy = register_operation_registry[OF reg]
  note bases = register_operation_base_classes[OF reg]
  from register_operation_operations[OF reg]
  obtain name where
    ops: "operations r1 = AList.update name (h\<lparr>h_operation := operation\<rparr>) (operations r)" ..
  have k1: "fst ` set (registry r1) = insert (h_type h) (fst ` set (registry r))"
  proof (cases "has_key (registry r) (h_type h)")
    case True
    then have "h_type h \<in> fst ` set (registry r)" by (simp add: has_key_def)
    with True regy show ?thesis by (simp add: insert_absorb)
  next
    case False
    with regy show ?thesis by (simp add: dom_update)
  qed
  define T where "T = (\<lambda>p. h_type (snd p)) ` set (operations r)"
  define T1 where "T1 = (\<lambda>p :: string \<times> 'a handler. h_type (snd p)) ` set (operations r1)"
  define C where "C = {cls \<in> set (base_classes r). \<exists>ms. class_methods rt cls = Inr ms \<and> ms \<noteq> []}"
  define K where "K = fst ` set (registry r)"
  have t: "T1 \<subseteq> insert (h_type h) T"
    unfolding T1_def T_def ops
    using operations_types_update[of name "h\<lparr>h_operation := operation\<rparr>" "operations r"]
    by simp
  from inv have i: "T \<union> C \<subseteq> K"
    unfolding registry_covers_keys T_def C_def K_def by auto
  from t i have "T1 \<union> C \<subseteq> insert (h_type h) K" by blast
  then show ?thesis
    unfolding registry_covers_keys T1_def C_def K_def k1 bases by auto
qed

lemma covers_step:
  assumes inv: "registry_covers rt r" and ok: "apply_command rt r c = (None, r1)"
  shows "registry_covers rt r1"
proof (cases c)
  case (Register_operation operation h)
  with ok covers_register[OF inv] show ?thesis by simp
next
  case (Set_managing_object obj)
  show ?thesis
  proof (cases "obj \<noteq> PNone \<and> type_of obj \<notin> set (base_classes r)")
    case True
    from ok Set_managing_object registry_set_managing_object_new[OF True, of rt r1]
    show ?thesis by (simp add: covers_rebuilt)
  next
    case False
    from registry_set_managing_object_old[OF False, of rt] ok Set_managing_object
    have "r1 = r\<lparr>managing_object := obj\<rparr>" by simp
    with inv show ?thesis by (simp add: registry_covers_keys)
  qed
next
  case (Update_registry add clr)
  with ok registry_update_registry[of rt r add clr r1] show ?thesis by (simp add: covers_rebuilt)
qed

lemma covers_run:
  "registry_covers rt r \<Longrightarrow> run_commands rt r cmds = Inr r1 \<Longrightarrow> registry_covers rt r1"
proof (induction cmds arbitrary: r)
  case Nil
  then show ?case by simp
next
  case (Cons c cmds)
  from Cons.prems(2) obtain r' where a: "apply_command rt r c = (None, r')"
    and b: "run_commands rt r' cmds = Inr r1"
    by (auto split: prod.splits option.splits)
  from Cons.IH[OF covers_step[OF Cons.prems(1) a] b] show ?case .
qed

lemma covers_keys:
  assumes "registry_covers rt r" and "rebuilt rt r = Inr reg"
  shows "fst ` set reg \<subseteq> fst ` set (registry r)"
  using keys_get_method_registry[OF assms(2)[unfolded rebuilt_def]] assms(1)
  unfolding registry_covers_keys by auto













subsection \<open>Requests with \<open>attributes\<close> set to \<open>None\<close>\<close>

text \<open>
  C10. A Single Request whose \<open>attributes\<close> key is present with the value \<open>None\<close> and
  whose \<open>method\<close> is a non-empty string, with a registered operation (a non-empty name
  bound in the operations table) and a target object that resolves, passes the type
  checks of \<open>process_request\<close> on \<open>method\<close> and \<open>attributes\<close> and then gets the failing
  envelope with the error \<open>Invalid attributes type\<close>. The state is returned as it was
  passed: the call log and the application state are the same, so \<open>execute\<close> was not
  called.
\<close>

theorem C10_none_attributes_rejected_before_execute:
  assumes attrs: "map_of req ''attributes'' = Some PNone"
    and meth: "map_of req ''method'' = Some (PStr m)" and m: "m \<noteq> []"
    and oper: "map_of req ''operation'' = Some (PStr name)" and name: "name \<noteq> []"
    and reg: "map_of (operations r) name = Some h"
    and obj: "validate_object r (dict_get req ''obj'') ''request object'' = Inr effective_obj"
  shows "\<not> invalid_method req \<and> \<not> invalid_attributes req
       \<and> process_request rt r (PDict i req) st
           = (Inr (Single (failure effective_obj ''Invalid attributes type'')), st)"
proof -
  have k: "has_key req ''operation''" using oper by (rule map_of_has_key)
  have im: "\<not> invalid_method req" using meth by (simp add: invalid_method_def dict_get_def)
  have ia: "\<not> invalid_attributes req" using attrs by (simp add: invalid_attributes_def dict_get_def)
  have b: "build_execute_args effective_obj PNone (PStr m) st1
            = (Inl (failure effective_obj ''Invalid attributes type''), st1)" for st1 :: "'a pstate"
    using m by (simp add: build_execute_args_def)
  have s: "process_single_request rt r req st
            = (Inr (failure effective_obj ''Invalid attributes type''), st)"
    using attrs meth oper name reg obj b
    by (simp add: process_single_request_def dict_get_def new_dict_def lookup_operation_def)
  show ?thesis using k im ia s by (simp add: process_request_def)
qed

theorem C10_witness:
  "map_of [(''operation'', PStr ''manage''), (''method'', PStr ''create''), (''attributes'', PNone)]
       ''attributes'' = Some PNone
   \<and> map_of (operations example_router) ''manage'' = Some manage_handler
   \<and> validate_object example_router PNone ''request object'' = Inr project
   \<and> process_request example_rt example_router
        (PDict 0 [(''operation'', PStr ''manage''), (''method'', PStr ''create''), (''attributes'', PNone)]) st0
       = (Inr (Single (failure project ''Invalid attributes type'')), st0)"
  using C10_none_attributes_rejected_before_execute
          [of "[(''operation'', PStr ''manage''), (''method'', PStr ''create''), (''attributes'', PNone)]"
              "''create''" "''manage''" example_router manage_handler project example_rt 0 st0]
  by (simp add: example_router_simps validate_object_def dict_get_def project_def st0_def)

subsection \<open>A Batch with a value that is no dict\<close>

text \<open>
  C1, as the code has it. For a request dict with no top-level \<open>operation\<close> key, at least one
  entry and at least one value that is no dict, \<open>process_request\<close> returns one failing
  envelope for the whole request: status false, object, method and result \<open>None\<close>, and
  an error that lists the ids and type names of the values that are no dicts. The state
  is returned as it was passed, so no sub-request was dispatched: such a value is fatal
  to the whole Batch.
\<close>

theorem C1_non_dict_value_fails_whole_batch:
  assumes "req \<noteq> []" and "\<not> has_key req ''operation''"
    and "\<not> list_all (\<lambda>(k, v). isinstance_dict v) req"
  shows "process_request rt r (PDict i req) st
           = (Inr (Single (failure PNone
                (''Invalid sub-request type in sequence: ''
                 @ repr_pairs rt (map (\<lambda>(k, v). (k, type_name (type_of v)))
                                   (filter (\<lambda>(k, v). \<not> isinstance_dict v) req))))), st)"
proof -
  from assms(3) have "filter (\<lambda>(k, v). \<not> isinstance_dict v) req \<noteq> []"
    by (auto simp: filter_empty_conv list_all_iff)
  with assms(1,2) show ?thesis by (simp add: process_request_def)
qed

theorem C1_witness:
  "[(''r1'', PInt 7), (''r2'', PDict 1 [(''operation'', PStr ''manage'')])] \<noteq> []
   \<and> \<not> has_key [(''r1'', PInt 7), (''r2'', PDict 1 [(''operation'', PStr ''manage'')])] ''operation''
   \<and> \<not> list_all (\<lambda>(k, v). isinstance_dict v)
          [(''r1'', PInt 7), (''r2'', PDict 1 [(''operation'', PStr ''manage'')])]
   \<and> process_request example_rt example_router
        (PDict 0 [(''r1'', PInt 7), (''r2'', PDict 1 [(''operation'', PStr ''manage'')])]) st0
       = (Inr (Single (failure PNone (''Invalid sub-request type in sequence: ''
                                       @ repr_pairs example_rt [(''r1'', ''int'')]))), st0)"
  using C1_non_dict_value_fails_whole_batch
          [of "[(''r1'', PInt 7), (''r2'', PDict 1 [(''operation'', PStr ''manage'')])]"
              example_rt example_router 0 st0]
  by (simp add: has_key_def)

text \<open>
  The claim as the spec states it fails: the Batch below has the non-dict value \<open>7\<close>
  under \<open>r1\<close> and a well-formed sub-request for the registered operation \<open>manage\<close> under
  \<open>r2\<close>. The response is a single envelope, which holds no envelope under \<open>r1\<close> or
  \<open>r2\<close>, and the call log stays empty: \<open>r2\<close> was not dispatched.
\<close>

theorem C1_counterexample:
  "process_request example_rt example_router
     (PDict 0 [(''r1'', PInt 7), (''r2'', PDict 1 [(''operation'', PStr ''manage'')])]) st0
   = (Inr (Single (failure PNone (''Invalid sub-request type in sequence: [(''
                                   @ quoted ''r1'' @ '', '' @ quoted ''int'' @ '')]''))), st0)
   \<and> envelope_for (Single (failure PNone (''Invalid sub-request type in sequence: [(''
                                   @ quoted ''r1'' @ '', '' @ quoted ''int'' @ '')]''))) ''r1'' = None
   \<and> calls st0 = []"
  by (simp add: process_request_def has_key_def example_rt_def example_repr_pairs_def st0_def)

subsection \<open>What \<open>process_request\<close> raises\<close>




text \<open>
  Outside the hypotheses of the theorem: an \<open>operation\<close> that cannot be hashed. The lookup
  in the operations table raises \<open>TypeError\<close>, outside any \<open>try\<close>, and \<open>process_request\<close>
  raises it.
\<close>

lemma unhashable_operation_raises:
  "process_request example_rt example_router
          (PDict 0 [(''operation'', PList [PStr ''manage''])]) st0
     = (Inl (TypeError (''unhashable type: '' @ quoted ''list'')), st0)"
  by (simp add: run_defs)

text \<open>
  A Batch whose result holds a value with a \<open>repr\<close> that raises: the sub-request gets
  its envelope, and the log message after the loop raises.
\<close>

lemma unprintable_result_raises:
  "process_request unprintable_rt example_router
          (PDict 0 [(''r1'', PDict 1 [(''obj'', block 9)])]) st0
     = (Inl (PyExc ''RuntimeError'' True ''bad repr''), st0)"
  by (simp add: run_defs unprintable_rt_def example_rt_def block_def failure_def)

subsection \<open>A handler that raises\<close>

text \<open>
  C4, as the code has it. Take a Single Request whose operation is registered with the
  handler \<open>h\<close> and that was dispatched: the call log grew by a call of \<open>h\<close> with the
  payload \<open>args\<close>, and that call of \<open>execute\<close> raises an exception \<open>e\<close>. If \<open>e\<close> derives
  from \<open>Exception\<close>, then \<open>process_request\<close> returns the failing envelope whose error is
  \<open>str(e)\<close> and whose object is the resolved target object; the class of \<open>e\<close> is not in
  it. If \<open>e\<close> does not derive from \<open>Exception\<close> (\<open>SystemExit\<close>, \<open>KeyboardInterrupt\<close>,
  \<open>GeneratorExit\<close>), \<open>except Exception\<close> does not catch it and \<open>process_request\<close> raises
  it. (An exception whose own \<open>__str__\<close> raises is another outcome of the model,
  \<open>Raises_unprintable\<close>, and not the subject here.)
\<close>

theorem C4_Exception_becomes_envelope:
  assumes run: "process_request rt r (PDict i req) st = (res, st1)"
    and single: "has_key req ''operation''"
    and reg: "lookup_operation (operations r) (dict_get req ''operation'') = Some h"
    and disp: "calls st1 = calls st @ [(h_id h, args)]"
    and raises: "h_execute h (managing_object r) args (app st) = (Raises e, w)"
  shows "(is_Exception e \<longrightarrow> res = Inr (Single (failure (arg_obj args) (exc_str e))))
       \<and> (\<not> is_Exception e \<longrightarrow> res = Inl e)
       \<and> validate_object r (dict_get req ''obj'') ''request object'' = Inr (arg_obj args)"
proof -
  from disp have d: "calls st1 \<noteq> calls st" by simp
  from process_request_single[OF run single d]
  obtain res1 where s: "process_single_request rt r req st = (res1, st1)"
    and res: "res = (case res1 of Inl e \<Rightarrow> Inl e | Inr env \<Rightarrow> Inr (Single env))" by blast
  from process_single_request_dispatched[OF s disp] reg
  have v: "validate_object r (dict_get req ''obj'') ''request object'' = Inr (arg_obj args)"
    and x: "run_execute r h args (arg_obj args) (st1\<lparr>calls := calls st, app := app st\<rparr>) = (res1, st1)"
    by auto
  from raises
  have r': "h_execute h (managing_object r) args (app (st1\<lparr>calls := calls st, app := app st\<rparr>)) = (Raises e, w)"
    by simp
  have caught: "res = Inr (Single (failure (arg_obj args) (exc_str e)))" if "is_Exception e"
    using run_execute_Raises[OF r' that, of "arg_obj args"] x res by simp
  have uncaught: "res = Inl e" if "\<not> is_Exception e"
    using run_execute_Raises_uncaught[OF r' that, of "arg_obj args"] x res by simp
  from caught uncaught v show ?thesis by blast
qed

theorem C4_witness:
  "process_request example_rt example_router
      (PDict 0 [(''operation'', PStr ''fail''), (''attributes'', PDict 1 [(''a'', PInt 1)])]) st0
     = (Inr (Single (failure project ''boom'')),
        \<lparr>heap_next = 102,
         calls = [(2, \<lparr>arg_obj = project, arg_attributes = Some (PDict 101 [(''a'', PInt 1)]),
                       arg_method = None\<rparr>)],
         app = 1\<rparr>)
   \<and> lookup_operation (operations example_router) (PStr ''fail'') = Some failing_handler
   \<and> h_execute failing_handler project
        \<lparr>arg_obj = project, arg_attributes = Some (PDict 101 [(''a'', PInt 1)]), arg_method = None\<rparr> 0
       = (Raises (PyExc ''RuntimeError'' True ''boom''), 1)"
  using C4_Exception_becomes_envelope
          [of example_rt example_router 0
              "[(''operation'', PStr ''fail''), (''attributes'', PDict 1 [(''a'', PInt 1)])]" st0
              "fst (process_request example_rt example_router
                 (PDict 0 [(''operation'', PStr ''fail''), (''attributes'', PDict 1 [(''a'', PInt 1)])]) st0)"
              "snd (process_request example_rt example_router
                 (PDict 0 [(''operation'', PStr ''fail''), (''attributes'', PDict 1 [(''a'', PInt 1)])]) st0)"
              failing_handler
              "\<lparr>arg_obj = project, arg_attributes = Some (PDict 101 [(''a'', PInt 1)]), arg_method = None\<rparr>"
              "PyExc ''RuntimeError'' True ''boom''" 1]
  by (simp add: process_request_def has_key_def invalid_method_def invalid_attributes_def
     process_single_request_def dict_get_def new_dict_def lookup_operation_def example_router_simps
     validate_object_def project_def build_execute_args_def run_execute_def failing_handler_def st0_def Let_def)

text \<open>
  The claim as the spec states it fails for an exception outside \<open>Exception\<close>: the
  handler below raises \<open>SystemExit\<close>, and \<open>process_request\<close> raises it to its caller.
\<close>

theorem C4_counterexample:
  "process_request example_rt exiting_router (PDict 0 [(''operation'', PStr ''quit'')]) st0
   = (Inl (PyExc ''SystemExit'' False ''0''),
      \<lparr>heap_next = 101,
       calls = [(3, \<lparr>arg_obj = project, arg_attributes = None, arg_method = None\<rparr>)],
       app = 0\<rparr>)"
  by (simp add: process_request_def has_key_def invalid_method_def invalid_attributes_def
     process_single_request_def dict_get_def new_dict_def lookup_operation_def exiting_router_simps
     validate_object_def project_def build_execute_args_def run_execute_def exiting_handler_def st0_def Let_def)

subsection \<open>The payload of \<open>execute\<close>\<close>

text \<open>
  C8, as the code has it. When \<open>_process_single_request\<close> dispatches a request (the call
  log grew by a call with the payload \<open>args\<close>), the payload holds the resolved target object
  (the request's \<open>obj\<close> if it is not \<open>None\<close>, else the managing object). It holds
  \<open>attributes\<close> exactly when the request's \<open>attributes\<close> or \<open>method\<close> is truthy (a
  non-empty dict, a non-empty string), and \<open>method\<close> exactly when \<open>method\<close> is truthy.
  The \<open>attributes\<close> of the payload is a new dict object with the items of the request's
  \<open>attributes\<close> (no items when the request has none): it is not the caller's dict, which
  existed before the call, and an assignment to the caller's dict leaves it as it is.
\<close>

theorem C8_payload_of_dispatched_request:
  assumes run: "process_single_request rt r req st = (res, st1)"
    and disp: "calls st1 = calls st @ [(hid, args)]"
  shows "validate_object r (dict_get req ''obj'') ''request object'' = Inr (arg_obj args)
       \<and> arg_obj args = (if dict_get req ''obj'' \<noteq> PNone then dict_get req ''obj'' else managing_object r)
       \<and> (arg_attributes args \<noteq> None
            \<longleftrightarrow> truthy (dict_get req ''attributes'') \<or> truthy (dict_get req ''method''))
       \<and> arg_method args
            = (if truthy (dict_get req ''method'') then Some (dict_get req ''method'') else None)
       \<and> (\<forall>c. arg_attributes args = Some c \<longrightarrow>
              c = PDict (Suc (heap_next st)) (dict_items (dict_get req ''attributes''))
            \<and> (\<forall>j kvs key value. dict_get req ''attributes'' = PDict j kvs \<and> j < heap_next st \<longrightarrow>
                   c \<noteq> dict_get req ''attributes'' \<and> after_setitem j key value c = c))"
proof -
  from process_single_request_dispatched[OF run disp]
  have v: "validate_object r (dict_get req ''obj'') ''request object'' = Inr (arg_obj args)"
    and a: "arg_attributes args
                = (if truthy (dict_get req ''attributes'') \<or> truthy (dict_get req ''method'')
                   then Some (PDict (Suc (heap_next st)) (dict_items (dict_get req ''attributes'')))
                   else None)"
    and m: "arg_method args
                = (if truthy (dict_get req ''method'') then Some (dict_get req ''method'') else None)"
    by auto
  from v have o: "arg_obj args = (if dict_get req ''obj'' \<noteq> PNone then dict_get req ''obj'' else managing_object r)"
    by (auto simp: validate_object_def Let_def split: if_splits)
  from v o a m show ?thesis by (auto simp: after_setitem_def)
qed

theorem C8_witness:
  "process_single_request example_rt example_router
       [(''operation'', PStr ''manage''), (''attributes'', PDict 7 [(''action'', PStr ''create'')])] st0
     = (Inr \<lparr>env_status = PBool True, env_object = project, env_method = PStr ''_manage_wizardblock'',
             env_result = PNone, env_error = None\<rparr>,
        \<lparr>heap_next = 102,
         calls = [(1, \<lparr>arg_obj = project,
                       arg_attributes = Some (PDict 101 [(''action'', PStr ''create'')]),
                       arg_method = None\<rparr>)],
         app = 1\<rparr>)
   \<and> after_setitem 7 ''action'' (PStr ''delete'') (PDict 101 [(''action'', PStr ''create'')])
       = PDict 101 [(''action'', PStr ''create'')]
   \<and> after_setitem 7 ''action'' (PStr ''delete'') (PDict 7 [(''action'', PStr ''create'')])
       = PDict 7 [(''action'', PStr ''delete'')]"
  using C8_payload_of_dispatched_request
          [of example_rt example_router
              "[(''operation'', PStr ''manage''), (''attributes'', PDict 7 [(''action'', PStr ''create'')])]" st0
              "fst (process_single_request example_rt example_router
                 [(''operation'', PStr ''manage''), (''attributes'', PDict 7 [(''action'', PStr ''create'')])] st0)"
              "snd (process_single_request example_rt example_router
                 [(''operation'', PStr ''manage''), (''attributes'', PDict 7 [(''action'', PStr ''create'')])] st0)"
              1
              "\<lparr>arg_obj = project, arg_attributes = Some (PDict 101 [(''action'', PStr ''create'')]),
                arg_method = None\<rparr>"]
  by (simp add: after_setitem_def normalise_def subscript_def
     process_single_request_def dict_get_def new_dict_def lookup_operation_def example_router_simps
     validate_object_def project_def build_execute_args_def run_execute_def manage_handler_def st0_def Let_def)

text \<open>
  The claim as the spec states it fails when \<open>attributes\<close> is supplied as an empty dict
  and \<open>method\<close> is not supplied: the request is dispatched with a payload without
  \<open>attributes\<close>.
\<close>

theorem C8_counterexample:
  "has_key [(''operation'', PStr ''manage''), (''attributes'', PDict 7 [])] ''attributes''
   \<and> calls (snd (process_single_request example_rt example_router
                    [(''operation'', PStr ''manage''), (''attributes'', PDict 7 [])] st0))
       = [(1, \<lparr>arg_obj = project, arg_attributes = None, arg_method = None\<rparr>)]"
  by (simp add: has_key_def normalise_def subscript_def
     process_single_request_def dict_get_def new_dict_def lookup_operation_def example_router_simps
     validate_object_def project_def build_execute_args_def run_execute_def manage_handler_def st0_def Let_def)

subsection \<open>A request without \<open>operation\<close>\<close>

text \<open>
  C2, as the code has it. Let \<open>req\<close> be a Single Request dict without the \<open>operation\<close>
  key. Passed to \<open>process_request\<close> itself, it gets a failing envelope only when it is
  empty (error \<open>No operation specified in request\<close>) or has a value that is no dict
  (error \<open>Invalid sub-request type in sequence\<close>), and the object of that envelope is
  \<open>None\<close>, whatever \<open>obj\<close> is; a non-empty dict of dicts is read as a Batch and the
  result is no single envelope. Passed as a sub-request of a Batch that
  \<open>process_request\<close> completes, it gets, under its id, the failing envelope whose object
  is its \<open>obj\<close> (\<open>None\<close> when it has none) and whose error is
  \<open>Missing 'operation' in sub-request\<close>.
\<close>

theorem C2_missing_operation:
  assumes nk: "\<not> has_key req ''operation''"
  shows "(req = [] \<longrightarrow>
            process_request rt r (PDict i req) st
              = (Inr (Single (failure PNone ''No operation specified in request'')), st))
       \<and> (req \<noteq> [] \<and> \<not> list_all (\<lambda>(k, v). isinstance_dict v) req \<longrightarrow>
            process_request rt r (PDict i req) st
              = (Inr (Single (failure PNone
                   (''Invalid sub-request type in sequence: ''
                    @ repr_pairs rt (map (\<lambda>(k, v). (k, type_name (type_of v)))
                                      (filter (\<lambda>(k, v). \<not> isinstance_dict v) req))))), st))
       \<and> (req \<noteq> [] \<and> list_all (\<lambda>(k, v). isinstance_dict v) req \<longrightarrow>
            (\<forall>env. fst (process_request rt r (PDict i req) st) \<noteq> Inr (Single env)))
       \<and> (\<forall>batch b k results st1.
            distinct (map fst batch) \<and> (k, PDict i req) \<in> set batch
            \<and> process_request rt r (PDict b batch) st = (Inr (Batch results), st1) \<longrightarrow>
            map_of results k
              = Some (failure (dict_get req ''obj'')
                        (''Missing '' @ quoted ''operation'' @ '' in sub-request'')))"
proof -
  have zero: "process_request rt r (PDict i req) st
                 = (Inr (Single (failure PNone ''No operation specified in request'')), st)"
    if "req = []"
    using that by (simp add: process_request_def has_key_def dict_get_def)
  have one: "process_request rt r (PDict i req) st
              = (Inr (Single (failure PNone
                   (''Invalid sub-request type in sequence: ''
                    @ repr_pairs rt (map (\<lambda>(k, v). (k, type_name (type_of v)))
                                      (filter (\<lambda>(k, v). \<not> isinstance_dict v) req))))), st)"
    if "req \<noteq> [] \<and> \<not> list_all (\<lambda>(k, v). isinstance_dict v) req"
  proof -
    from that have "filter (\<lambda>(k, v). \<not> isinstance_dict v) req \<noteq> []"
      by (auto simp: filter_empty_conv list_all_iff)
    with that nk show ?thesis by (simp add: process_request_def)
  qed
  have two: "fst (process_request rt r (PDict i req) st) \<noteq> Inr (Single env)"
    if "req \<noteq> [] \<and> list_all (\<lambda>(k, v). isinstance_dict v) req" for env
  proof -
    from that have "filter (\<lambda>(k, v). \<not> isinstance_dict v) req = []"
      by (auto simp: filter_empty_conv list_all_iff)
    with that nk show ?thesis
      by (auto simp: process_request_def split: prod.splits sum.splits option.splits)
  qed
  have three: "map_of results k
              = Some (failure (dict_get req ''obj'')
                        (''Missing '' @ quoted ''operation'' @ '' in sub-request''))"
    if d: "distinct (map fst batch)" and m: "(k, PDict i req) \<in> set batch"
      and run: "process_request rt r (PDict b batch) st = (Inr (Batch results), st1)"
    for batch b k results st1
  proof -
    from run have "process_sequence rt r batch [] st = (Inr results, st1)"
      by (auto simp: process_request_def Let_def split: if_splits prod.splits sum.splits option.splits)
    from process_sequence_missing_operation[OF this d m nk] show ?thesis .
  qed
  from zero one two three show ?thesis by blast
qed

theorem C2_witness:
  "\<not> has_key [(''obj'', block 2)] ''operation''
   \<and> process_request example_rt example_router (PDict 2 [(''obj'', block 2)]) st0
       = (Inr (Single (failure PNone
            (''Invalid sub-request type in sequence: '' @ repr_pairs example_rt [(''obj'', ''WizardBlock'')]))),
          st0)
   \<and> process_request example_rt example_router
        (PDict 0 [(''r1'', PDict 1 [(''operation'', PStr ''manage''), (''obj'', block 1)]),
                  (''r2'', PDict 2 [(''obj'', block 2)])]) st0
       = (Inr (Batch
            [(''r1'', \<lparr>env_status = PBool True, env_object = block 1,
                       env_method = PStr ''_manage_wizardblock'', env_result = PNone,
                       env_error = None\<rparr>),
             (''r2'', failure (block 2) (''Missing '' @ quoted ''operation'' @ '' in sub-request''))]),
          \<lparr>heap_next = 101,
           calls = [(1, \<lparr>arg_obj = block 1, arg_attributes = None, arg_method = None\<rparr>)],
           app = 1\<rparr>)"
  using C2_missing_operation [of "[(''obj'', block 2)]" example_rt example_router 2 st0]
  by (simp add: run_defs example_defs failure_def example_rt_def)

text \<open>
  The claim as the spec states it fails on the request \<open>{"obj": 5}\<close>: the envelope's
  object is \<open>None\<close>, not the \<open>obj\<close> of the caller.
\<close>

theorem C2_counterexample:
  "process_request example_rt example_router (PDict 0 [(''obj'', PInt 5)]) st0
     = (Inr (Single (failure PNone (''Invalid sub-request type in sequence: [(''
                                     @ quoted ''obj'' @ '', '' @ quoted ''int'' @ '')]''))), st0)
   \<and> env_object (failure PNone (''Invalid sub-request type in sequence: [(''
                                     @ quoted ''obj'' @ '', '' @ quoted ''int'' @ '')]''))
       \<noteq> dict_get [(''obj'', PInt 5)] ''obj''"
  by (simp add: run_defs example_rt_def example_repr_pairs_def failure_def)

subsection \<open>Batches\<close>




subsection \<open>The registry and its rebuild\<close>

text \<open>
  C6, as the code has it. Whenever the constructor, \<open>update_registry\<close> or a
  \<open>set_managing_object\<close> whose object has a type that is new to the base classes
  returns, the registry is the one rebuilt from the current operations and base classes
  (any other \<open>set_managing_object\<close> changes neither). \<open>register_operation\<close> does not
  rebuild: when it returns, it has added an entry for the handler's type if that type
  had none and otherwise left the registry as it is, so entries of handlers that were
  replaced stay. After any sequence of the mutating operations that all return, the
  registry has an entry for every type of the rebuilt registry.
\<close>

theorem C6_registry_and_rebuild:
  "(\<forall>r0. Manipulator_init rt obj bases ops strict = Inr r0 \<longrightarrow> rebuilt rt r0 = Inr (registry r0))
   \<and> (\<forall>r1. update_registry rt r additional_classes clear_operations = (None, r1) \<longrightarrow>
         rebuilt rt r1 = Inr (registry r1))
   \<and> (obj' \<noteq> PNone \<and> type_of obj' \<notin> set (base_classes r) \<longrightarrow>
         (\<forall>r1. set_managing_object rt r obj' = (None, r1) \<longrightarrow> rebuilt rt r1 = Inr (registry r1)))
   \<and> (\<not> (obj' \<noteq> PNone \<and> type_of obj' \<notin> set (base_classes r)) \<longrightarrow>
         fst (set_managing_object rt r obj') = None
         \<and> registry (snd (set_managing_object rt r obj')) = registry r
         \<and> rebuilt rt (snd (set_managing_object rt r obj')) = rebuilt rt r)
   \<and> (\<forall>r1. register_operation r operation h = (None, r1) \<longrightarrow>
         registry r1 = (if has_key (registry r) (h_type h) then registry r
                        else AList.update (h_type h) (instance_methods h) (registry r)))
   \<and> (\<forall>r0 r1 reg. Manipulator_init rt obj bases ops strict = Inr r0
                     \<and> run_commands rt r0 cmds = Inr r1 \<and> rebuilt rt r1 = Inr reg \<longrightarrow>
         fst ` set reg \<subseteq> fst ` set (registry r1))"
proof (intro conjI allI impI)
  fix r0 assume "Manipulator_init rt obj bases ops strict = Inr r0"
  then show "rebuilt rt r0 = Inr (registry r0)" by (rule registry_init)
next
  fix r1 assume "update_registry rt r additional_classes clear_operations = (None, r1)"
  then show "rebuilt rt r1 = Inr (registry r1)" by (rule registry_update_registry)
next
  fix r1 assume "obj' \<noteq> PNone \<and> type_of obj' \<notin> set (base_classes r)"
    and "set_managing_object rt r obj' = (None, r1)"
  then show "rebuilt rt r1 = Inr (registry r1)" by (rule registry_set_managing_object_new)
next
  assume a: "\<not> (obj' \<noteq> PNone \<and> type_of obj' \<notin> set (base_classes r))"
  note old = registry_set_managing_object_old[OF a, of rt]
  show "fst (set_managing_object rt r obj') = None" by (simp add: old)
  show "registry (snd (set_managing_object rt r obj')) = registry r" by (simp add: old)
  show "rebuilt rt (snd (set_managing_object rt r obj')) = rebuilt rt r"
    by (simp add: old rebuilt_def)
next
  fix r1 assume "register_operation r operation h = (None, r1)"
  then show "registry r1 = (if has_key (registry r) (h_type h) then registry r
                        else AList.update (h_type h) (instance_methods h) (registry r))"
    by (rule register_operation_registry)
next
  fix r0 r1 reg
  assume a: "Manipulator_init rt obj bases ops strict = Inr r0
             \<and> run_commands rt r0 cmds = Inr r1 \<and> rebuilt rt r1 = Inr reg"
  then have i: "Manipulator_init rt obj bases ops strict = Inr r0"
    and c: "run_commands rt r0 cmds = Inr r1" and b: "rebuilt rt r1 = Inr reg" by simp_all
  have "registry_covers rt r0" by (rule covers_rebuilt[OF registry_init[OF i]])
  then have "registry_covers rt r1" using c by (rule covers_run)
  then show "fst ` set reg \<subseteq> fst ` set (registry r1)" using b by (rule covers_keys)
qed

theorem C6_witness:
  "Manipulator_init example_rt PNone None None False = Inr empty_router
   \<and> rebuilt example_rt empty_router = Inr (registry empty_router)
   \<and> update_registry example_rt empty_router None False = (None, empty_router)
   \<and> project \<noteq> PNone \<and> type_of project \<notin> set (base_classes empty_router)
   \<and> fst (set_managing_object example_rt empty_router project) = None
   \<and> rebuilt example_rt (snd (set_managing_object example_rt empty_router project))
       = Inr (registry (snd (set_managing_object example_rt empty_router project)))
   \<and> \<not> (PNone \<noteq> PNone \<and> type_of PNone \<notin> set (base_classes empty_router))
   \<and> registry (snd (set_managing_object example_rt empty_router PNone)) = registry empty_router
   \<and> fst (register_operation empty_router (PStr ''manage'') manage_handler) = None
   \<and> registry (snd (register_operation empty_router (PStr ''manage'') manage_handler))
       = AList.update BlockManager (instance_methods manage_handler) (registry empty_router)
   \<and> (\<exists>r1 reg. run_commands example_rt empty_router
                   [Register_operation (PStr ''x'') manage_handler,
                    Register_operation (PStr ''x'') failing_handler] = Inr r1
         \<and> rebuilt example_rt r1 = Inr reg
         \<and> fst ` set reg = {Class ''tests'' ''Failing''}
         \<and> fst ` set (registry r1) = {BlockManager, Class ''tests'' ''Failing''})"
  using C6_registry_and_rebuild
          [where rt = example_rt and obj = PNone and bases = None and ops = None and strict = False
             and r = empty_router and additional_classes = None and clear_operations = False
             and obj' = project and operation = "PStr ''manage''" and h = manage_handler
             and cmds = "[Register_operation (PStr ''x'') manage_handler,
                          Register_operation (PStr ''x'') failing_handler]"]
  by (simp add: empty_router_def registry_defs example_rt_def manage_handler_def failing_handler_def
                BlockManager_def project_def)

text \<open>
  The claim as the spec states it fails after two registrations under one name: the
  entry of the first handler's type is still in the registry and is not in the rebuilt
  one.
\<close>

theorem C6_counterexample:
  "run_commands example_rt empty_router
     [Register_operation (PStr ''x'') manage_handler,
      Register_operation (PStr ''x'') failing_handler]
     = Inr (empty_router
              \<lparr>operations := [(''x'', failing_handler\<lparr>h_operation := PStr ''x''\<rparr>)],
               registry := [(BlockManager, [(''_manage_wizardblock'', (Method, 12)),
                                            (''execute'', (Method, 14))]),
                            (Class ''tests'' ''Failing'', [(''execute'', (Method, 21))])]\<rparr>)
   \<and> rebuilt example_rt
       (empty_router
          \<lparr>operations := [(''x'', failing_handler\<lparr>h_operation := PStr ''x''\<rparr>)],
           registry := [(BlockManager, [(''_manage_wizardblock'', (Method, 12)),
                                        (''execute'', (Method, 14))]),
                        (Class ''tests'' ''Failing'', [(''execute'', (Method, 21))])]\<rparr>)
     = Inr [(Class ''tests'' ''Failing'', [(''execute'', (Method, 21))])]
   \<and> map_of [(BlockManager, [(''_manage_wizardblock'', (Method, 12)), (''execute'', (Method, 14))]),
              (Class ''tests'' ''Failing'', [(''execute'', (Method, 21))])] BlockManager
       \<noteq> map_of [(Class ''tests'' ''Failing'', [(''execute'', (Method, 21))])] BlockManager"
  by (simp add: empty_router_def registry_defs example_rt_def manage_handler_def failing_handler_def
                BlockManager_def)

subsection \<open>Registering a handler and asking for its methods\<close>

text \<open>
  C7, as the code has it. Take a handler with an \<open>execute\<close> attribute that accepts the
  assignment of \<open>_operation\<close> and on which \<open>inspect.getmembers\<close> returns where
  \<open>register_operation\<close> calls it (that is, when the handler's type has no registry
  entry), and a non-empty operation name. Then \<open>register_operation\<close> returns and
  \<open>get_methods_for_type\<close> on the handler's type then returns too, with no
  \<open>update_registry\<close> in between. It returns the handler's methods (its bound methods
  whose names do not start with two underscores) when the type had no registry entry
  before the registration, and the entry that was there otherwise.
\<close>

theorem C7_register_then_get_methods:
  assumes ex: "has_key (h_members h) ''execute''" and name: "name \<noteq> []"
    and sa: "h_setattr_error h = None"
    and gm: "has_key (registry r) (h_type h) \<or> h_getmembers_error h = None"
  shows "\<exists>r1. register_operation r (PStr name) h = (None, r1)
           \<and> get_methods_for_type r1 (h_type h)
               = Inr (case map_of (registry r) (h_type h) of
                        None \<Rightarrow> instance_methods h
                      | Some ms \<Rightarrow> ms)"
proof (cases "map_of (registry r) (h_type h)")
  case None
  then have "\<not> has_key (registry r) (h_type h)" by (simp add: has_key_map_of)
  with ex name sa gm None show ?thesis
    by (simp add: register_operation_def get_methods_for_type_def Let_def update_conv'
                  instance_methods_def)
next
  case (Some ms)
  then have "has_key (registry r) (h_type h)" by (simp add: has_key_map_of)
  with ex name sa Some show ?thesis
    by (simp add: register_operation_def get_methods_for_type_def Let_def)
qed

theorem C7_witness:
  "has_key (h_members manage_handler) ''execute''
   \<and> h_setattr_error manage_handler = None \<and> h_getmembers_error manage_handler = None
   \<and> (\<exists>r1. register_operation empty_router (PStr ''manage'') manage_handler = (None, r1)
          \<and> get_methods_for_type r1 (h_type manage_handler)
              = Inr [(''_manage_wizardblock'', (Method, 12)), (''execute'', (Method, 14))])"
  using C7_register_then_get_methods [of manage_handler "''manage''" empty_router]
  by (simp add: empty_router_def registry_defs manage_handler_def)

text \<open>
  The claim as the spec states it fails when the handler's class is one of the Router's
  base classes: the entry made at construction holds the functions of the class with
  names that do not start with an underscore, and \<open>register_operation\<close> keeps it.
\<close>

theorem C7_counterexample:
  "get_methods_for_type (snd (register_operation base_class_router (PStr ''manage'') manage_handler))
       BlockManager
     = Inr [(''execute'', (Function, 3))]
   \<and> instance_methods manage_handler
       = [(''_manage_wizardblock'', (Method, 12)), (''execute'', (Method, 14))]"
  by (simp add: base_class_router_def registry_defs example_rt_def manage_handler_def BlockManager_def)

text \<open>
  Outside the hypotheses of the theorem: the two statements of \<open>register_operation\<close> that
  run code of the handler's class. An exception of the assignment of \<open>_operation\<close> is
  raised with the Router as it was.
\<close>

lemma register_operation_setattr_raises:
  assumes "has_key (h_members h) ''execute''" and "name \<noteq> []" and "h_setattr_error h = Some e"
  shows "register_operation r (PStr name) h = (Some e, r)"
  using assms by (simp add: register_operation_def)

subsection \<open>Error paths and the Router's state\<close>

text \<open>
  C9 fails on the code. \<open>register_operation\<close> checks its arguments before it changes
  the Router, and an error found there leaves the Router as it was. But it stores the
  handler in the operations table before it reflects on it: for a handler on which
  \<open>inspect.getmembers\<close> raises, and whose type has no registry entry,
  \<open>register_operation\<close> raises with the handler bound in the operations table.
\<close>

theorem C9_register_operation_raises_after_storing:
  "register_operation empty_router (PStr ''x'') broken_handler
     = (Some (PyExc ''RuntimeError'' True ''boom''),
        empty_router\<lparr>operations := [(''x'', broken_handler\<lparr>h_operation := PStr ''x''\<rparr>)]\<rparr>)
   \<and> operations empty_router = []
   \<and> get_supported_operations
        (snd (register_operation empty_router (PStr ''x'') broken_handler)) = [''x'']"
  by (simp add: empty_router_def registry_defs broken_handler_def get_supported_operations_def)

text \<open>The errors that \<open>register_operation\<close> finds before line 146 leave the Router as it was.\<close>

lemma register_operation_early_errors:
  assumes "\<not> isinstance_str operation \<or> operation = PStr []
           \<or> \<not> has_key (h_members h) ''execute'' \<or> h_setattr_error h \<noteq> None"
  shows "\<exists>e. register_operation r operation h = (Some e, r)"
  using assms
  by (cases operation) (auto simp: register_operation_def split: option.splits)

end
